theory Spec2Isabelle
  imports Complex_Main
begin

section \<open>Conventions of the embedding\<close>

text \<open>
  The program is Python over \<open>numpy\<close>. Its 64-bit floats are idealised as \<^typ>\<open>real\<close>
  and its complex floats as \<^typ>\<open>complex\<close>: every statement below is about exact
  arithmetic, so an equation proved here is what the source computes up to rounding.
  A Python \<open>dict\<close> is an association list in insertion order (the order in which
  \<open>items()\<close> iterates); a well-formed dict has pairwise distinct keys.
\<close>

type_synonym 'v dict = "(string \<times> 'v) list"

definition keys :: "'v dict \<Rightarrow> string list" where
  "keys d = map fst d"

definition vals :: "'v dict \<Rightarrow> 'v list" where
  "vals d = map snd d"

text \<open>\<open>k in d\<close>\<close>

definition has_key :: "'v dict \<Rightarrow> string \<Rightarrow> bool" where
  "has_key d k = (k \<in> set (keys d))"

text \<open>\<open>d.get(k, default)\<close>\<close>

definition dict_get :: "'v dict \<Rightarrow> string \<Rightarrow> 'v \<Rightarrow> 'v" where
  "dict_get d k dflt = (case map_of d k of None \<Rightarrow> dflt | Some v \<Rightarrow> v)"

text \<open>\<open>d[k] += x\<close> for a key that is present: the entry keeps its position.\<close>

definition dict_add :: "real dict \<Rightarrow> string \<Rightarrow> real \<Rightarrow> real dict" where
  "dict_add d k x = map (\<lambda>(k', v). if k' = k then (k', v + x) else (k', v)) d"

text \<open>
  \<open>sorted(d.items(), key=lambda x: x[1], reverse=True)\<close>: Python's sort is stable and
  stays stable under \<open>reverse=True\<close>, so entries of equal value keep their order. That
  is the stable insertion sort of the library on the negated value.
\<close>

definition sorted_desc :: "real dict \<Rightarrow> real dict" where
  "sorted_desc d = sort_key (\<lambda>x. - snd x) d"

section \<open>config.py\<close>

definition FACIAL_EMOTIONS :: "string list" where
  "FACIAL_EMOTIONS =
     [''happy'', ''sad'', ''angry'', ''surprise'', ''neutral'', ''fear'', ''disgust'']"

definition MOVEMENT_EMOTIONS :: "string list" where
  "MOVEMENT_EMOTIONS =
     [''energetic'', ''calm'', ''aggressive'', ''graceful'', ''playful'', ''melancholic'']"

definition DANCE_STYLES :: "string list" where
  "DANCE_STYLES =
     [''Ballet'', ''Hip-Hop'', ''Contemporary'', ''Jazz'', ''Salsa'',
      ''Breakdance'', ''Ballroom'', ''Tap'', ''Lyrical'', ''Freestyle'']"

definition QUANTUM_DIMENSIONS :: nat where
  "QUANTUM_DIMENSIONS = 16"

definition ENTANGLEMENT_STRENGTH :: real where
  "ENTANGLEMENT_STRENGTH = 7 / 10"

definition SUPERPOSITION_THRESHOLD :: real where
  "SUPERPOSITION_THRESHOLD = 1 / 10"

definition TOP_K_RECOMMENDATIONS :: nat where
  "TOP_K_RECOMMENDATIONS = 5"

section \<open>classical\_recommender.py\<close>

record recommendation =
  dance_style :: string
  score :: real
  confidence :: real
  reasoning :: string

text \<open>The result dict of either engine: the list and the name of the engine (the key
  \<open>'method'\<close> of the source, a reserved word here), extended by the engine's own
  summary.\<close>

record 'r recommendation_set =
  recommendations :: "'r list"
  method_name :: string

record classical_result = "recommendation recommendation_set" +
  diversity_score :: real

text \<open>\<open>ClassicalRecommender._build_emotion_dance_matrix\<close>\<close>

definition emotion_dance_matrix :: "real dict dict" where
  "emotion_dance_matrix =
    [(''happy'', [(''Hip-Hop'', 8/10), (''Jazz'', 7/10), (''Salsa'', 9/10), (''Tap'', 6/10)]),
     (''sad'', [(''Contemporary'', 9/10), (''Lyrical'', 8/10), (''Ballet'', 6/10)]),
     (''angry'', [(''Breakdance'', 8/10), (''Hip-Hop'', 7/10), (''Freestyle'', 6/10)]),
     (''energetic'',
        [(''Hip-Hop'', 9/10), (''Breakdance'', 8/10), (''Salsa'', 7/10), (''Tap'', 6/10)]),
     (''calm'', [(''Ballet'', 9/10), (''Contemporary'', 7/10), (''Lyrical'', 8/10)]),
     (''graceful'', [(''Ballet'', 1), (''Ballroom'', 8/10), (''Contemporary'', 7/10)]),
     (''playful'', [(''Jazz'', 8/10), (''Tap'', 7/10), (''Freestyle'', 6/10)]),
     (''aggressive'', [(''Breakdance'', 9/10), (''Hip-Hop'', 7/10)]),
     (''melancholic'', [(''Contemporary'', 9/10), (''Lyrical'', 8/10), (''Ballet'', 6/10)]),
     (''surprise'', [(''Freestyle'', 7/10), (''Jazz'', 6/10)]),
     (''neutral'', [(''Freestyle'', 5/10), (''Contemporary'', 5/10)]),
     (''fear'', [(''Contemporary'', 6/10), (''Freestyle'', 5/10)]),
     (''disgust'', [(''Freestyle'', 5/10)])]"

text \<open>
  The inner loop of \<open>recommend\<close>, over one row of the matrix:
  \<open>for dance, affinity in row.items(): if dance in dance_scores: dance_scores[dance] += intensity * affinity\<close>
\<close>

definition add_row :: "real \<Rightarrow> real dict \<Rightarrow> real dict \<Rightarrow> real dict" where
  "add_row intensity row dance_scores =
     fold (\<lambda>(dance, affinity) ds.
             if has_key ds dance then dict_add ds dance (intensity * affinity) else ds)
          row dance_scores"

text \<open>The outer loop: \<open>for emotion, intensity in emotions.items(): if emotion in matrix: ...\<close>\<close>

definition accumulate_scores :: "real dict dict \<Rightarrow> real dict \<Rightarrow> real dict \<Rightarrow> real dict" where
  "accumulate_scores matrix emotions dance_scores =
     fold (\<lambda>(emotion, intensity) ds.
             case map_of matrix emotion of
               None \<Rightarrow> ds
             | Some row \<Rightarrow> add_row intensity row ds)
          emotions dance_scores"

definition dance_scores_of :: "real dict \<Rightarrow> real dict" where
  "dance_scores_of emotions =
     accumulate_scores emotion_dance_matrix emotions (map (\<lambda>style. (style, 0)) DANCE_STYLES)"

text \<open>
  \<open>ClassicalRecommender._generate_reasoning\<close>: the contributions are collected in the
  order of \<open>emotions.items()\<close>, sorted by contribution (descending, stable), and the
  first one names the emotion of the sentence.
\<close>

definition contributions :: "real dict dict \<Rightarrow> string \<Rightarrow> real dict \<Rightarrow> real dict" where
  "contributions matrix style emotions =
     concat (map (\<lambda>(emotion, intensity).
                    case map_of matrix emotion of
                      None \<Rightarrow> []
                    | Some row \<Rightarrow>
                        (case map_of row style of
                           None \<Rightarrow> []
                         | Some affinity \<Rightarrow> [(emotion, intensity * affinity)]))
                 emotions)"

definition generate_reasoning :: "string \<Rightarrow> real dict \<Rightarrow> string" where
  "generate_reasoning style emotions =
     (case sorted_desc (contributions emotion_dance_matrix style emotions) of
        [] \<Rightarrow> ''General compatibility with '' @ style
      | (top_emotion, _) # _ \<Rightarrow>
          ''Strong '' @ top_emotion @ '' emotion detected, which aligns well with '' @ style)"

text \<open>\<open>np.mean\<close>, \<open>np.var\<close> and \<open>np.std\<close> (population variance, \<open>ddof = 0\<close>) of a
  non-empty sequence.\<close>

definition np_mean :: "real list \<Rightarrow> real" where
  "np_mean xs = sum_list xs / real (length xs)"

definition np_var :: "real list \<Rightarrow> real" where
  "np_var xs = np_mean (map (\<lambda>x. (x - np_mean xs)\<^sup>2) xs)"

definition np_std :: "real list \<Rightarrow> real" where
  "np_std xs = sqrt (np_var xs)"

text \<open>\<open>ClassicalRecommender._calculate_diversity\<close>\<close>

definition calculate_diversity :: "recommendation list \<Rightarrow> real" where
  "calculate_diversity recs =
     (if length recs < 2 then 0 else np_std (map score recs))"

text \<open>\<open>ClassicalRecommender.recommend\<close>\<close>

definition classical_recommendations :: "real dict \<Rightarrow> recommendation list" where
  "classical_recommendations emotions =
     map (\<lambda>(dance, s).
            \<lparr>dance_style = dance, score = s, confidence = min 1 s,
             reasoning = generate_reasoning dance emotions\<rparr>)
         (filter (\<lambda>(dance, s). s > 0)
            (take TOP_K_RECOMMENDATIONS (sorted_desc (dance_scores_of emotions))))"

definition classical_recommend :: "real dict \<Rightarrow> classical_result" where
  "classical_recommend emotions =
     (let recs = classical_recommendations emotions
      in \<lparr>recommendations = recs, method_name = ''classical'',
          diversity_score = calculate_diversity recs\<rparr>)"

section \<open>emotion\_analyzer.py\<close>

text \<open>
  The dict that \<open>VideoProcessor._aggregate_features\<close> returns; every key is always
  present, so \<open>features.get(key, 0)\<close> is the field. The frames are of an abstract
  type \<open>'f\<close>.
\<close>

record 'f aggregated_features =
  avg_velocity :: real
  max_velocity :: real
  velocity_variance :: real
  avg_acceleration :: real
  acceleration_variance :: real
  pose_diversity :: real
  sample_frames :: "'f list"

record emotion_analysis =
  facial :: "real dict"
  movement :: "real dict"
  combined :: "real dict"

text \<open>
  The idiom that closes all three computations of a distribution:
  \<open>total = sum(d.values()); if total > 0: d = {k: v/total for k, v in d.items()}\<close>
\<close>

definition normalize_if_positive :: "real dict \<Rightarrow> real dict" where
  "normalize_if_positive d =
     (let total = sum_list (vals d)
      in if total > 0 then map (\<lambda>(k, v). (k, v / total)) d else d)"

definition uniform_facial :: "real dict" where
  "uniform_facial = map (\<lambda>emotion. (emotion, 1 / real (length FACIAL_EMOTIONS))) FACIAL_EMOTIONS"

text \<open>
  \<open>EmotionAnalyzer._analyze_facial_presence\<close>. The Haar cascade is a capability
  \<open>detects_face\<close>: whether \<open>detectMultiScale\<close> finds at least one face in the frame.
  The loop stops at the first frame with a face.
\<close>

definition analyze_facial_presence :: "('f \<Rightarrow> bool) \<Rightarrow> 'f list \<Rightarrow> real dict" where
  "analyze_facial_presence detects_face frames =
     (if frames = [] then uniform_facial
      else if list_ex detects_face frames then
        [(''happy'', 3/10), (''neutral'', 3/10), (''surprise'', 2/10), (''sad'', 1/10),
         (''angry'', 5/100), (''fear'', 3/100), (''disgust'', 2/100)]
      else uniform_facial)"

text \<open>\<open>EmotionAnalyzer._analyze_movement_emotions\<close>, before its normalisation.\<close>

definition movement_scores :: "('f, 'x) aggregated_features_scheme \<Rightarrow> real dict" where
  "movement_scores features =
     (let v = avg_velocity features;
          var = velocity_variance features;
          a = avg_acceleration features;
          p = pose_diversity features
      in [(''energetic'', min 1 ((v * 2 + a) / 2)),
          (''calm'', max 0 (1 - (v + var) / 2)),
          (''aggressive'', min 1 ((a * 2 + var) / 2)),
          (''graceful'', if v > 3/10 \<and> var < 3/10 then 7/10 else 3/10),
          (''playful'', min 1 ((p * 3 + v) / 2)),
          (''melancholic'', max 0 (1 - (v + p) / 2))])"

definition analyze_movement_emotions :: "('f, 'x) aggregated_features_scheme \<Rightarrow> real dict" where
  "analyze_movement_emotions features = normalize_if_positive (movement_scores features)"

text \<open>
  \<open>EmotionAnalyzer._combine_emotions\<close>, before its normalisation. The source iterates
  over a \<open>set\<close> of the keys of both dicts, in an order Python does not fix; the model
  takes the keys without repetition in the order of \<open>remdups\<close>.
\<close>

definition combine_scores :: "real dict \<Rightarrow> real dict \<Rightarrow> real dict" where
  "combine_scores facial_d movement_d =
     (let facial_weight = 4/10;
          movement_weight = 6/10;
          all_emotions = remdups (keys facial_d @ keys movement_d)
      in map (\<lambda>emotion.
                (emotion, dict_get facial_d emotion 0 * facial_weight
                          + dict_get movement_d emotion 0 * movement_weight))
             all_emotions)"

definition combine_emotions :: "real dict \<Rightarrow> real dict \<Rightarrow> real dict" where
  "combine_emotions facial_d movement_d = normalize_if_positive (combine_scores facial_d movement_d)"

text \<open>\<open>EmotionAnalyzer.analyze_emotions\<close>\<close>

definition analyze_emotions ::
  "('f \<Rightarrow> bool) \<Rightarrow> ('f, 'x) aggregated_features_scheme \<Rightarrow> emotion_analysis" where
  "analyze_emotions detects_face features =
     (let facial_emotions = analyze_facial_presence detects_face (sample_frames features);
          movement_emotions = analyze_movement_emotions features
      in \<lparr>facial = facial_emotions, movement = movement_emotions,
          combined = combine_emotions facial_emotions movement_emotions\<rparr>)"

section \<open>utils.py\<close>

text \<open>\<open>calculate\_entropy\<close>: Shannon entropy in bits over the positive entries.\<close>

definition calculate_entropy :: "real list \<Rightarrow> real" where
  "calculate_entropy probabilities =
     - sum_list (map (\<lambda>p. p * log 2 p) (filter (\<lambda>p. p > 0) probabilities))"

section \<open>quantum\_recommender.py\<close>

type_synonym cvec = "complex list"

text \<open>\<open>np.linalg.norm\<close>, \<open>np.dot\<close>, \<open>state += c * basis\<close> and \<open>op @ state\<close> on
  vectors as lists and matrices as lists of rows.\<close>

definition linalg_norm :: "cvec \<Rightarrow> real" where
  "linalg_norm v = sqrt (sum_list (map (\<lambda>z. (cmod z)\<^sup>2) v))"

definition np_dot :: "cvec \<Rightarrow> cvec \<Rightarrow> complex" where
  "np_dot u v = sum_list (map2 (*) u v)"

definition add_scaled :: "cvec \<Rightarrow> complex \<Rightarrow> cvec \<Rightarrow> cvec" where
  "add_scaled state c basis = map2 (+) state (map ((*) c) basis)"

definition matvec :: "complex list list \<Rightarrow> cvec \<Rightarrow> cvec" where
  "matvec m v = map (\<lambda>row. np_dot row v) m"

text \<open>\<open>np.eye(n, dtype=complex)\<close> and \<open>op[i, i] *= c\<close>\<close>

definition eye :: "nat \<Rightarrow> complex list list" where
  "eye n = map (\<lambda>i. (replicate n 0)[i := 1]) [0..<n]"

definition scale_diagonal_entry :: "complex list list \<Rightarrow> nat \<Rightarrow> complex \<Rightarrow> complex list list" where
  "scale_diagonal_entry op i c = op[i := (op ! i)[i := op ! i ! i * c]]"

text \<open>
  \<open>\_create\_emotion\_basis\<close> and \<open>\_create\_dance\_basis\<close>: the \<open>i\<close>-th name gets the
  \<open>i\<close>-th unit vector, or the zero vector when \<open>i\<close> is not below the dimension.
\<close>

definition basis_vector :: "nat \<Rightarrow> cvec" where
  "basis_vector i =
     (let vector = replicate QUANTUM_DIMENSIONS 0
      in if i < QUANTUM_DIMENSIONS then vector[i := 1] else vector)"

definition create_basis :: "string list \<Rightarrow> cvec dict" where
  "create_basis names = map (\<lambda>(i, name). (name, basis_vector i)) (enumerate 0 names)"

definition emotion_basis :: "cvec dict" where
  "emotion_basis = create_basis (FACIAL_EMOTIONS @ MOVEMENT_EMOTIONS)"

definition dance_basis :: "cvec dict" where
  "dance_basis = create_basis DANCE_STYLES"

text \<open>\<open>QuantumRecommender._create_entanglement_matrix\<close>\<close>

definition entanglement_matrix :: "real dict dict" where
  "entanglement_matrix =
    [(''happy'', [(''Hip-Hop'', 9/10), (''Jazz'', 8/10), (''Salsa'', 95/100), (''Tap'', 7/10)]),
     (''sad'', [(''Contemporary'', 95/100), (''Lyrical'', 9/10), (''Ballet'', 7/10)]),
     (''angry'', [(''Breakdance'', 9/10), (''Hip-Hop'', 8/10), (''Freestyle'', 7/10)]),
     (''energetic'', [(''Hip-Hop'', 95/100), (''Breakdance'', 9/10), (''Salsa'', 85/100)]),
     (''calm'', [(''Ballet'', 95/100), (''Contemporary'', 8/10), (''Lyrical'', 9/10)]),
     (''graceful'', [(''Ballet'', 1), (''Ballroom'', 9/10), (''Contemporary'', 8/10)]),
     (''playful'', [(''Jazz'', 9/10), (''Tap'', 85/100), (''Freestyle'', 7/10)]),
     (''aggressive'', [(''Breakdance'', 95/100), (''Hip-Hop'', 8/10)]),
     (''melancholic'', [(''Contemporary'', 95/100), (''Lyrical'', 9/10), (''Ballet'', 7/10)])]"

text \<open>
  \<open>QuantumRecommender._create_superposition_state\<close>. The source draws one phase per
  emotion found in the basis with \<open>np.random.uniform(0, 2 * np.pi)\<close>; the model takes
  the phase source as the sequence \<open>rng\<close> of the values that the successive draws of
  this call return, and threads the number of draws made so far. \<open>np.exp(1j * phase)\<close>
  is \<^term>\<open>cis phase\<close>. \<open>np.sqrt\<close> of a negative float is \<open>nan\<close>, which the model
  does not represent: the statements about this function assume probabilities that are
  not negative.
\<close>

definition superposition_step ::
  "(nat \<Rightarrow> real) \<Rightarrow> string \<times> real \<Rightarrow> cvec \<times> nat \<Rightarrow> cvec \<times> nat" where
  "superposition_step rng = (\<lambda>(emotion, probability) (state, drawn).
     case map_of emotion_basis emotion of
       None \<Rightarrow> (state, drawn)
     | Some basis \<Rightarrow>
         (let amplitude = sqrt probability;
              phase = rng drawn;
              complex_amplitude = complex_of_real amplitude * cis phase
          in (add_scaled state complex_amplitude basis, Suc drawn)))"

definition superposition_raw :: "real dict \<Rightarrow> (nat \<Rightarrow> real) \<Rightarrow> cvec \<times> nat" where
  "superposition_raw emotions rng =
     fold (superposition_step rng) emotions (replicate QUANTUM_DIMENSIONS 0, 0)"

definition create_superposition_state :: "real dict \<Rightarrow> (nat \<Rightarrow> real) \<Rightarrow> cvec" where
  "create_superposition_state emotions rng =
     (let state = fst (superposition_raw emotions rng);
          norm = linalg_norm state
      in if norm > 0 then map (\<lambda>z. z / complex_of_real norm) state else state)"

text \<open>
  \<open>QuantumRecommender._apply_entanglement\<close>. The inner loop multiplies the diagonal
  entry of dance \<open>i\<close> once for every emotion correlated with that dance; the outer loop
  leaves at the first index that is not below the dimension.
\<close>

definition entangle_dance :: "real dict \<Rightarrow> nat \<times> string \<Rightarrow> complex list list \<Rightarrow> complex list list" where
  "entangle_dance emotions = (\<lambda>(i, dance) op.
     fold (\<lambda>(emotion, intensity) op.
             case map_of entanglement_matrix emotion of
               None \<Rightarrow> op
             | Some row \<Rightarrow>
                 (case map_of row dance of
                    None \<Rightarrow> op
                  | Some correlation \<Rightarrow>
                      (let angle = correlation * ENTANGLEMENT_STRENGTH * pi / 2
                       in scale_diagonal_entry op i (cis (angle * intensity)))))
          emotions op)"

definition entanglement_op :: "real dict \<Rightarrow> complex list list" where
  "entanglement_op emotions =
     fold (entangle_dance emotions)
          (takeWhile (\<lambda>(i, dance). \<not> i \<ge> QUANTUM_DIMENSIONS) (enumerate 0 DANCE_STYLES))
          (eye QUANTUM_DIMENSIONS)"

definition apply_entanglement :: "cvec \<Rightarrow> real dict \<Rightarrow> cvec" where
  "apply_entanglement quantum_state emotions = matvec (entanglement_op emotions) quantum_state"

text \<open>
  \<open>QuantumRecommender._quantum_measurement\<close>, in its three stages: the weight of every
  dance below the dimension, the normalisation, and the selection. \<open>dance_basis[dance]\<close>
  is defined for every dance style, since the basis is built from the same list.
\<close>

definition entanglement_boost :: "real dict \<Rightarrow> string \<Rightarrow> real" where
  "entanglement_boost emotions dance =
     fold (\<lambda>(emotion, intensity) boost.
             case map_of entanglement_matrix emotion of
               None \<Rightarrow> boost
             | Some row \<Rightarrow>
                 (case map_of row dance of
                    None \<Rightarrow> boost
                  | Some correlation \<Rightarrow> boost + intensity * correlation))
          emotions 0"

definition dance_weights :: "cvec \<Rightarrow> real dict \<Rightarrow> real dict" where
  "dance_weights quantum_state emotions =
     map (\<lambda>(i, dance).
            (let projection =
                   (cmod (np_dot (map cnj (the (map_of dance_basis dance))) quantum_state))\<^sup>2;
                 boost = entanglement_boost emotions dance
             in (dance, projection * (1 + boost))))
         (filter (\<lambda>(i, dance). i < QUANTUM_DIMENSIONS) (enumerate 0 DANCE_STYLES))"

definition dance_probabilities :: "cvec \<Rightarrow> real dict \<Rightarrow> real dict" where
  "dance_probabilities quantum_state emotions =
     normalize_if_positive (dance_weights quantum_state emotions)"

record quantum_recommendation = recommendation +
  quantum_amplitude :: real

text \<open>
  \<open>QuantumRecommender._generate_quantum_reasoning\<close>. The rendering of the amplitude
  with two decimals (\<open>{probability:.2f}\<close>) is the parameter \<open>fmt\<close>.
\<close>

definition generate_quantum_reasoning :: "(real \<Rightarrow> string) \<Rightarrow> string \<Rightarrow> real dict \<Rightarrow> real \<Rightarrow> string" where
  "generate_quantum_reasoning fmt style emotions probability =
     (case sorted_desc (contributions entanglement_matrix style emotions) of
        [] \<Rightarrow> ''Emerged from quantum superposition (amplitude: '' @ fmt probability @ '')''
      | (top_emotion, _) # _ \<Rightarrow>
          ''Quantum entanglement detected between '' @ top_emotion @ '' and '' @ style
            @ '' (amplitude: '' @ fmt probability @ '')'')"

definition quantum_measurement ::
  "(real \<Rightarrow> string) \<Rightarrow> cvec \<Rightarrow> real dict \<Rightarrow> quantum_recommendation list" where
  "quantum_measurement fmt quantum_state emotions =
     map (\<lambda>(dance, probability).
            \<lparr>dance_style = dance, score = probability, confidence = probability,
             reasoning = generate_quantum_reasoning fmt dance emotions probability,
             quantum_amplitude = probability\<rparr>)
         (filter (\<lambda>(dance, probability). probability > SUPERPOSITION_THRESHOLD)
            (take TOP_K_RECOMMENDATIONS
               (sorted_desc (dance_probabilities quantum_state emotions))))"

record quantum_properties =
  superposition_entropy :: real
  entanglement_strength :: real
  coherence :: real

record quantum_result = "quantum_recommendation recommendation_set" +
  quantum_properties :: quantum_properties

text \<open>\<open>QuantumRecommender.recommend\<close>\<close>

definition quantum_recommend :: "(real \<Rightarrow> string) \<Rightarrow> real dict \<Rightarrow> (nat \<Rightarrow> real) \<Rightarrow> quantum_result" where
  "quantum_recommend fmt emotions rng =
     (let quantum_state = create_superposition_state emotions rng;
          entangled_state = apply_entanglement quantum_state emotions
      in \<lparr>recommendations = quantum_measurement fmt entangled_state emotions,
          method_name = ''quantum'',
          quantum_properties =
            \<lparr>superposition_entropy = calculate_entropy (map (\<lambda>a. (cmod a)\<^sup>2) quantum_state),
             entanglement_strength = ENTANGLEMENT_STRENGTH,
             coherence = cmod (sum_list quantum_state)\<rparr>\<rparr>)"

text \<open>
  The phases come from the global generator of \<open>numpy\<close>, so that a call of
  \<open>recommend\<close> has an effect as well: it leaves the generator advanced by the draws it
  made. With the generator as the sequence of the values still to come, a call returns
  its result and the rest of that sequence, from which the next call draws.
\<close>

definition quantum_recommend_call ::
  "(real \<Rightarrow> string) \<Rightarrow> real dict \<Rightarrow> (nat \<Rightarrow> real) \<Rightarrow> quantum_result \<times> (nat \<Rightarrow> real)" where
  "quantum_recommend_call fmt emotions generator =
     (quantum_recommend fmt emotions generator,
      (\<lambda>k. generator (snd (superposition_raw emotions generator) + k)))"

section \<open>video\_processor.py\<close>

text \<open>
  OpenCV is outside the program. A \<open>cv2.VideoCapture\<close> is what the extractor observes
  of it: whether it opened, and the frames that \<open>read()\<close> hands out before it reports
  the end of the stream. The image operations are capabilities: the grey-scale
  conversion, the corner detector (which may find nothing) and the Lucas-Kanade tracker
  (which returns the new points, or nothing, and one status flag per point).
\<close>

type_synonym point = "real \<times> real"

record 'f video_capture =
  is_opened :: bool
  stream :: "'f list"

record ('f, 'g) cv2 =
  cvtColor :: "'f \<Rightarrow> 'g"
  goodFeaturesToTrack :: "'g \<Rightarrow> point list option"
  calcOpticalFlowPyrLK :: "'g \<Rightarrow> 'g \<Rightarrow> point list \<Rightarrow> point list option \<times> bool list"

datatype error = ValueError string

text \<open>The error of a source that cannot be opened, \<open>VideoUnreadable\<close> in the
  specification: \<open>raise ValueError("Could not open video file")\<close>.\<close>

abbreviation VideoUnreadable :: error where
  "VideoUnreadable \<equiv> ValueError ''Could not open video file''"

definition FRAME_SAMPLE_RATE :: nat where
  "FRAME_SAMPLE_RATE = 5"

text \<open>The \<open>features\<close> dict and the local variables of the loop of
  \<open>extract_features\<close>.\<close>

record ('f, 'g) extraction =
  velocities :: "real list"
  accelerations :: "real list"
  motion_magnitudes :: "real list"
  frames :: "'f list"
  frame_count :: nat
  prev_gray :: "'g option"
  prev_points :: "point list option"
  prev_velocity :: real

definition initial_extraction :: "('f, 'g) extraction" where
  "initial_extraction =
     \<lparr>velocities = [], accelerations = [], motion_magnitudes = [], frames = [],
      frame_count = 0, prev_gray = None, prev_points = None, prev_velocity = 0\<rparr>"

text \<open>\<open>points[status == 1]\<close>\<close>

definition select_good :: "bool list \<Rightarrow> point list \<Rightarrow> point list" where
  "select_good status points = map snd (filter fst (zip status points))"

text \<open>The body of \<open>if prev_gray is not None:\<close>\<close>

definition track_motion :: "('f, 'g) cv2 \<Rightarrow> 'g \<Rightarrow> 'g \<Rightarrow> ('f, 'g) extraction \<Rightarrow> ('f, 'g) extraction" where
  "track_motion cv previous gray st =
     (let points =
            (case prev_points st of
               None \<Rightarrow> goodFeaturesToTrack cv previous
             | Some pts \<Rightarrow> if length pts < 10 then goodFeaturesToTrack cv previous else Some pts);
          st = st\<lparr>prev_points := points\<rparr>
      in case points of
           None \<Rightarrow> st
         | Some pts \<Rightarrow>
             (case calcOpticalFlowPyrLK cv previous gray pts of
                (None, status) \<Rightarrow> st
              | (Some next_points, status) \<Rightarrow>
                  (let good_new = select_good status next_points;
                       good_old = select_good status pts
                   in if length good_new > 0 then
                        (let motion = map2 (\<lambda>(x, y) (x', y'). (x - x', y - y')) good_new good_old;
                             norms = map (\<lambda>(dx, dy). sqrt (dx\<^sup>2 + dy\<^sup>2)) motion;
                             velocity = np_mean norms;
                             acceleration = \<bar>velocity - prev_velocity st\<bar>
                         in st\<lparr>velocities := velocities st @ [velocity],
                               accelerations := accelerations st @ [acceleration],
                               prev_velocity := velocity,
                               motion_magnitudes := motion_magnitudes st @ [sum_list norms],
                               prev_points := Some good_new\<rparr>)
                      else st)))"

text \<open>One turn of the \<open>while\<close> loop, for a frame that \<open>read()\<close> returned.\<close>

definition process_frame :: "('f, 'g) cv2 \<Rightarrow> 'f \<Rightarrow> ('f, 'g) extraction \<Rightarrow> ('f, 'g) extraction" where
  "process_frame cv frame st =
     (let st =
        (if frame_count st mod FRAME_SAMPLE_RATE = 0 then
           (let gray = cvtColor cv frame;
                st = (case prev_gray st of
                        None \<Rightarrow> st
                      | Some previous \<Rightarrow> track_motion cv previous gray st);
                st = (if length (frames st) < 10 then st\<lparr>frames := frames st @ [frame]\<rparr> else st)
            in st\<lparr>prev_gray := Some gray\<rparr>)
         else st)
      in st\<lparr>frame_count := frame_count st + 1\<rparr>)"

text \<open>\<open>np.max\<close> of a non-empty sequence.\<close>

definition np_max :: "real list \<Rightarrow> real" where
  "np_max xs = fold max (tl xs) (hd xs)"

text \<open>\<open>VideoProcessor._aggregate_features\<close>\<close>

definition aggregate_features :: "('f, 'g) extraction \<Rightarrow> 'f aggregated_features" where
  "aggregate_features features =
     (let avg_v = (if velocities features \<noteq> [] then np_mean (velocities features) else 0);
          max_v = (if velocities features \<noteq> [] then np_max (velocities features) else 0);
          var_v = (if velocities features \<noteq> [] then np_var (velocities features) else 0);
          avg_a = (if accelerations features \<noteq> [] then np_mean (accelerations features) else 0);
          var_a = (if accelerations features \<noteq> [] then np_var (accelerations features) else 0);
          diversity =
            (if motion_magnitudes features \<noteq> [] then np_std (motion_magnitudes features) else 0);
          max_val = max (max avg_v max_v) 1
      in \<lparr>avg_velocity = avg_v / max_val,
          max_velocity = max_v / max_val,
          velocity_variance = var_v,
          avg_acceleration = avg_a,
          acceleration_variance = var_a,
          pose_diversity = diversity,
          sample_frames = frames features\<rparr>)"

text \<open>\<open>VideoProcessor.extract_features\<close>: the check of the capture comes first, then the
  loop over the frames, then the aggregation.\<close>

definition collect_features :: "('f, 'g) cv2 \<Rightarrow> 'f video_capture \<Rightarrow> ('f, 'g) extraction" where
  "collect_features cv cap = fold (process_frame cv) (stream cap) initial_extraction"

definition extract_features ::
  "('f, 'g) cv2 \<Rightarrow> 'f video_capture \<Rightarrow> error + 'f aggregated_features" where
  "extract_features cv cap =
     (if \<not> is_opened cap then Inl (ValueError ''Could not open video file'')
      else Inr (aggregate_features (collect_features cv cap)))"

section \<open>Auxiliary notions for the proofs\<close>

text \<open>What the two loops of \<open>recommend\<close> add to the score of \<open>dance\<close> per unit of
  intensity of \<open>emotion\<close>: the affinity of the pair, and nothing for a pair the table does
  not list.\<close>

definition affinity_of :: "real dict dict \<Rightarrow> string \<Rightarrow> string \<Rightarrow> real" where
  "affinity_of matrix emotion dance =
     (case map_of matrix emotion of
        None \<Rightarrow> 0
      | Some row \<Rightarrow> sum_list (map (\<lambda>(dance', affinity). if dance' = dance then affinity else 0) row))"

text \<open>
  The invariant of an emotion distribution in the data model: a dict (distinct keys) of
  values that are not negative. The numeric fields of aggregated features are means of
  norms, variances and standard deviations, hence not negative either.
\<close>

definition distribution_like :: "real dict \<Rightarrow> bool" where
  "distribution_like d = (distinct (keys d) \<and> list_all (\<lambda>(e, p). 0 \<le> p) d)"

definition valid_features :: "('f, 'x) aggregated_features_scheme \<Rightarrow> bool" where
  "valid_features features =
     (0 \<le> avg_velocity features \<and> 0 \<le> max_velocity features
      \<and> 0 \<le> velocity_variance features \<and> 0 \<le> avg_acceleration features
      \<and> 0 \<le> acceleration_variance features \<and> 0 \<le> pose_diversity features)"

text \<open>A face detector that finds no face in any frame.\<close>

definition no_face :: "'f \<Rightarrow> bool" where
  "no_face frame = False"

text \<open>The loop of the extractor appends a velocity, an acceleration and a motion
  magnitude together: one motion sample.\<close>

definition samples_aligned :: "('f, 'g) extraction \<Rightarrow> bool" where
  "samples_aligned st =
     (length (accelerations st) = length (velocities st)
      \<and> length (motion_magnitudes st) = length (velocities st))"

text \<open>The diagonal matrix with the entries \<open>d 0, d 1, ...\<close>, and the square of
  \<open>np.linalg.norm\<close>.\<close>

definition diagonal_matrix :: "nat \<Rightarrow> (nat \<Rightarrow> complex) \<Rightarrow> complex list list" where
  "diagonal_matrix n d = map (\<lambda>i. (replicate n 0)[i := d i]) [0..<n]"

definition squared_norm :: "cvec \<Rightarrow> real" where
  "squared_norm v = sum_list (map (\<lambda>z. (cmod z)\<^sup>2) v)"

text \<open>
  Equality of two dicts in Python (\<open>==\<close>): the same keys with the same values, in
  whatever order they were inserted.
\<close>

definition dict_eq :: "real dict \<Rightarrow> real dict \<Rightarrow> bool" where
  "dict_eq d d' = (distinct (keys d) \<and> distinct (keys d') \<and> set d = set d')"

text \<open>
  The probability of the emotion that owns the basis index \<open>j\<close>, or \<open>0\<close> when the
  distribution does not list it; and the correlation of a pair, \<open>0\<close> for a pair that the
  table does not list.
\<close>

definition slot_probability :: "real dict \<Rightarrow> nat \<Rightarrow> real" where
  "slot_probability emotions j =
     sum_list (map (\<lambda>(e, p). if j < length (FACIAL_EMOTIONS @ MOVEMENT_EMOTIONS)
                                  \<and> (FACIAL_EMOTIONS @ MOVEMENT_EMOTIONS) ! j = e
                               then p else 0) emotions)"

definition correlation_of :: "string \<Rightarrow> string \<Rightarrow> real" where
  "correlation_of emotion dance =
     (case map_of entanglement_matrix emotion of
        None \<Rightarrow> 0
      | Some row \<Rightarrow> (case map_of row dance of None \<Rightarrow> 0 | Some correlation \<Rightarrow> correlation))"

section \<open>Properties of the deterministic engine\<close>

lemma length_classical_recommendations:
  "length (classical_recommendations emotions) \<le> TOP_K_RECOMMENDATIONS"
proof -
  let ?top = "take TOP_K_RECOMMENDATIONS (sorted_desc (dance_scores_of emotions))"
  have "length (classical_recommendations emotions) = length (filter (\<lambda>(dance, s). s > 0) ?top)"
    unfolding classical_recommendations_def by simp
  also have "\<dots> \<le> length ?top"
    by (rule length_filter_le)
  also have "\<dots> \<le> TOP_K_RECOMMENDATIONS"
    by simp
  finally show ?thesis .
qed

lemma sorted_desc_sorted: "sorted_wrt (\<lambda>a b. snd a \<ge> snd b) (sorted_desc d)"
proof -
  have "sorted (map (\<lambda>x. - snd x) (sorted_desc d))"
    unfolding sorted_desc_def by (rule sorted_sort_key)
  then show ?thesis
    by (simp add: sorted_map)
qed

lemma classical_scores_sorted:
  "sorted_wrt (\<lambda>a b. a \<ge> b) (map score (classical_recommendations emotions))"
proof -
  let ?kept = "filter (\<lambda>(dance, s). s > 0)
                 (take TOP_K_RECOMMENDATIONS (sorted_desc (dance_scores_of emotions)))"
  have "sorted_wrt (\<lambda>a b. snd a \<ge> snd b) ?kept"
    by (intro sorted_wrt_filter sorted_wrt_take sorted_desc_sorted)
  moreover have "map score (classical_recommendations emotions) = map snd ?kept"
    unfolding classical_recommendations_def by (simp add: case_prod_beta)
  ultimately show ?thesis
    by (simp add: sorted_wrt_map)
qed

lemma classical_kept_positive:
  assumes "r \<in> set (classical_recommendations emotions)"
  shows "score r > 0 \<and> confidence r = min 1 (score r)"
  using assms unfolding classical_recommendations_def by auto

lemma dict_add_tabulate:
  "dict_add (map (\<lambda>d. (d, g d)) styles) k x =
     map (\<lambda>d. (d, if d = k then g d + x else g d)) styles"
  by (simp add: dict_add_def)

lemma add_row_tabulate:
  "add_row p row (map (\<lambda>d. (d, g d)) styles) =
     map (\<lambda>d. (d, g d + p * sum_list (map (\<lambda>(d', a). if d' = d then a else 0) row))) styles"
proof (induction row arbitrary: g)
  case Nil
  then show ?case by (simp add: add_row_def)
next
  case (Cons entry row)
  obtain k a where entry: "entry = (k, a)" by (cases entry)
  let ?g = "\<lambda>d. if d = k then g d + p * a else g d"
  have step: "(if has_key (map (\<lambda>d. (d, g d)) styles) k
               then dict_add (map (\<lambda>d. (d, g d)) styles) k (p * a)
               else map (\<lambda>d. (d, g d)) styles) = map (\<lambda>d. (d, ?g d)) styles"
    by (auto simp: dict_add_tabulate has_key_def keys_def comp_def)
  have "add_row p (entry # row) (map (\<lambda>d. (d, g d)) styles) =
          add_row p row (map (\<lambda>d. (d, ?g d)) styles)"
    using step by (simp add: add_row_def entry)
  also have "\<dots> = map (\<lambda>d. (d, ?g d + p * sum_list (map (\<lambda>(d', a). if d' = d then a else 0) row))) styles"
    by (rule Cons.IH)
  finally show ?case
    by (simp add: entry algebra_simps)
qed

lemma accumulate_scores_tabulate:
  "accumulate_scores matrix emotions (map (\<lambda>d. (d, g d)) styles) =
     map (\<lambda>d. (d, g d + sum_list (map (\<lambda>(e, p). p * affinity_of matrix e d) emotions))) styles"
proof (induction emotions arbitrary: g)
  case Nil
  then show ?case by (simp add: accumulate_scores_def)
next
  case (Cons entry emotions)
  obtain e p where entry: "entry = (e, p)" by (cases entry)
  let ?g = "\<lambda>d. g d + p * affinity_of matrix e d"
  have step: "(case map_of matrix e of None \<Rightarrow> map (\<lambda>d. (d, g d)) styles
               | Some row \<Rightarrow> add_row p row (map (\<lambda>d. (d, g d)) styles)) = map (\<lambda>d. (d, ?g d)) styles"
    by (simp add: affinity_of_def add_row_tabulate split: option.splits)
  have "accumulate_scores matrix (entry # emotions) (map (\<lambda>d. (d, g d)) styles) =
          accumulate_scores matrix emotions (map (\<lambda>d. (d, ?g d)) styles)"
    using step by (simp add: accumulate_scores_def entry)
  also have "\<dots> = map (\<lambda>d. (d, ?g d + sum_list (map (\<lambda>(e, p). p * affinity_of matrix e d) emotions))) styles"
    by (rule Cons.IH)
  finally show ?case
    by (simp add: entry algebra_simps)
qed

lemma dance_scores_of_eq:
  "dance_scores_of emotions =
     map (\<lambda>d. (d, sum_list (map (\<lambda>(e, p). p * affinity_of emotion_dance_matrix e d) emotions)))
         DANCE_STYLES"
  unfolding dance_scores_of_def using accumulate_scores_tabulate [where g = "\<lambda>_. 0"] by simp

lemma single_emotion_sum:
  fixes emotions :: "real dict"
  assumes "distinct (keys emotions)" and "(k, v) \<in> set emotions"
    and "\<forall>(e, p) \<in> set emotions. e \<noteq> k \<longrightarrow> p = 0"
  shows "sum_list (map (\<lambda>(e, p). p * h e) emotions) = v * h k"
  using assms
proof (induction emotions)
  case Nil
  then show ?case by simp
next
  case (Cons entry emotions)
  obtain e p where entry: "entry = (e, p)" by (cases entry)
  show ?case
  proof (cases "e = k")
    case True
    with Cons.prems entry have "p = v" and notin: "k \<notin> set (keys emotions)"
      by (auto simp: keys_def rev_image_eqI)
    have "\<forall>(e, p) \<in> set emotions. p = 0"
      using Cons.prems(3) notin by (force simp: keys_def)
    then have "sum_list (map (\<lambda>(e, p). p * h e) emotions) = 0"
      by (induction emotions) auto
    with True \<open>p = v\<close> show ?thesis by (simp add: entry)
  next
    case False
    with Cons.prems entry have "p = 0" and "(k, v) \<in> set emotions" by auto
    moreover have "distinct (keys emotions)" using Cons.prems(1) by (simp add: keys_def)
    moreover have "\<forall>(e, p) \<in> set emotions. e \<noteq> k \<longrightarrow> p = 0" using Cons.prems(3) by simp
    ultimately show ?thesis using Cons.IH by (simp add: entry)
  qed
qed

text \<open>
  Claim C4. For every input distribution, the list of the deterministic engine has at most
  \<open>K = 5\<close> entries, its scores never increase along the list, every entry has a
  positive score and the confidence \<open>min 1 score\<close>, and the diversity is \<open>0\<close> for fewer
  than two entries and the population standard deviation of the scores otherwise.
\<close>

theorem classical_recommend_shape:
  "let result = classical_recommend emotions;
       recs = recommendations result;
       n = real (length recs);
       mean = sum_list (map score recs) / n
   in TOP_K_RECOMMENDATIONS = 5
      \<and> length recs \<le> TOP_K_RECOMMENDATIONS
      \<and> sorted_wrt (\<lambda>a b. a \<ge> b) (map score recs)
      \<and> (\<forall>r \<in> set recs. score r > 0 \<and> confidence r = min 1 (score r))
      \<and> (length recs < 2 \<longrightarrow> diversity_score result = 0)
      \<and> (2 \<le> length recs \<longrightarrow>
           diversity_score result = sqrt (sum_list (map (\<lambda>r. (score r - mean)\<^sup>2) recs) / n))"
proof -
  have recs: "recommendations (classical_recommend emotions) = classical_recommendations emotions"
    by (simp add: classical_recommend_def Let_def)
  have div: "diversity_score (classical_recommend emotions)
               = calculate_diversity (classical_recommendations emotions)"
    by (simp add: classical_recommend_def Let_def)
  have "TOP_K_RECOMMENDATIONS = 5"
    by (simp add: TOP_K_RECOMMENDATIONS_def)
  moreover have "length (classical_recommendations emotions) < 2 \<longrightarrow>
      calculate_diversity (classical_recommendations emotions) = 0"
    by (simp add: calculate_diversity_def)
  moreover have "2 \<le> length (classical_recommendations emotions) \<longrightarrow>
      calculate_diversity (classical_recommendations emotions) =
        sqrt (sum_list (map (\<lambda>r. (score r - sum_list (map score (classical_recommendations emotions))
                 / real (length (classical_recommendations emotions)))\<^sup>2) (classical_recommendations emotions))
              / real (length (classical_recommendations emotions)))"
    by (simp add: calculate_diversity_def np_std_def np_var_def np_mean_def comp_def)
  ultimately show ?thesis
    unfolding Let_def recs div
    using length_classical_recommendations [of emotions] classical_scores_sorted [of emotions]
      classical_kept_positive [of _ emotions]
    by blast
qed

theorem classical_recommend_shape_witness:
  "map score (recommendations (classical_recommend [(''energetic'', 1)])) = [9/10, 8/10, 7/10, 6/10]
   \<and> map confidence (recommendations (classical_recommend [(''energetic'', 1)])) = [9/10, 8/10, 7/10, 6/10]
   \<and> (diversity_score (classical_recommend [(''energetic'', 1)]))\<^sup>2 = 1/80
   \<and> map score (recommendations (classical_recommend [(''disgust'', 1)])) = [1/2]
   \<and> diversity_score (classical_recommend [(''disgust'', 1)]) = 0"
  using classical_recommend_shape [of "[(''energetic'', 1)]"]
    classical_recommend_shape [of "[(''disgust'', 1)]"]
  by (simp add: classical_recommend_def classical_recommendations_def
      dance_scores_of_def accumulate_scores_def emotion_dance_matrix_def add_row_def has_key_def
      keys_def dict_add_def DANCE_STYLES_def sorted_desc_def TOP_K_RECOMMENDATIONS_def
      calculate_diversity_def Let_def np_std_def np_var_def np_mean_def power2_eq_square)

subsection \<open>A distribution concentrated on one emotion\<close>

lemma energetic_scores:
  fixes emotions :: "real dict"
  assumes "distinct (keys emotions)" and "(''energetic'', 1) \<in> set emotions"
    and "\<forall>(e, p) \<in> set emotions. e \<noteq> ''energetic'' \<longrightarrow> p = 0"
  shows "dance_scores_of emotions =
     [(''Ballet'', 0), (''Hip-Hop'', 9 / 10), (''Contemporary'', 0),
  (''Jazz'', 0), (''Salsa'', 7 / 10), (''Breakdance'', 8 / 10),
  (''Ballroom'', 0), (''Tap'', 6 / 10), (''Lyrical'', 0),
  (''Freestyle'', 0)]"
  unfolding dance_scores_of_eq single_emotion_sum [OF assms]
  by (simp add: DANCE_STYLES_def affinity_of_def emotion_dance_matrix_def)

text \<open>
  Claim C7. For a distribution that gives \<open>energetic\<close> the probability \<open>1\<close> and every
  other category it mentions the probability \<open>0\<close>, the first recommendation of the
  deterministic engine is Hip-Hop with score \<open>0.9\<close>, which is the affinity of the pair
  and the largest entry of the \<open>energetic\<close> row of the table.
\<close>

theorem energetic_top_pick:
  fixes emotions :: "real dict"
  assumes "distinct (keys emotions)" and "(''energetic'', 1) \<in> set emotions"
    and "\<forall>(e, p) \<in> set emotions. e \<noteq> ''energetic'' \<longrightarrow> p = 0"
  shows "\<exists>top rest.
           recommendations (classical_recommend emotions) = top # rest
           \<and> dance_style top = ''Hip-Hop''
           \<and> score top = 9/10
           \<and> score top = dict_get (dict_get emotion_dance_matrix ''energetic'' []) ''Hip-Hop'' 0
           \<and> (\<forall>(dance, affinity) \<in> set (dict_get emotion_dance_matrix ''energetic'' []).
                 affinity \<le> score top)"
proof -
  have hip_hop: "dict_get (dict_get emotion_dance_matrix ''energetic'' []) ''Hip-Hop'' 0 = 9/10"
    by (simp add: dict_get_def emotion_dance_matrix_def)
  have highest: "\<forall>(dance, affinity) \<in> set (dict_get emotion_dance_matrix ''energetic'' []).
                   affinity \<le> 9/10"
    by (simp add: dict_get_def emotion_dance_matrix_def)
  have "\<exists>rest. classical_recommendations emotions =
          \<lparr>dance_style = ''Hip-Hop'', score = 9/10, confidence = min 1 (9/10),
           reasoning = generate_reasoning ''Hip-Hop'' emotions\<rparr> # rest"
    unfolding classical_recommendations_def energetic_scores [OF assms]
    by (simp add: sorted_desc_def TOP_K_RECOMMENDATIONS_def)
  then obtain rest where "recommendations (classical_recommend emotions) =
          \<lparr>dance_style = ''Hip-Hop'', score = 9/10, confidence = min 1 (9/10),
           reasoning = generate_reasoning ''Hip-Hop'' emotions\<rparr> # rest"
    by (auto simp: classical_recommend_def Let_def)
  with hip_hop highest show ?thesis
    by simp
qed

theorem energetic_top_pick_witness:
  "distinct (keys [(''energetic'', 1::real)])
   \<and> (''energetic'', 1) \<in> set [(''energetic'', 1::real)]
   \<and> (\<exists>top rest.
           recommendations (classical_recommend [(''energetic'', 1)]) = top # rest
           \<and> dance_style top = ''Hip-Hop''
           \<and> score top = 9/10)"
proof -
  have h1: "distinct (keys [(''energetic'', 1::real)])" by (simp add: keys_def)
  have h2: "(''energetic'', 1) \<in> set [(''energetic'', 1::real)]" by simp
  have h3: "\<forall>(e, p) \<in> set [(''energetic'', 1::real)]. e \<noteq> ''energetic'' \<longrightarrow> p = 0" by simp
  show ?thesis
    using h1 h2 energetic_top_pick [OF h1 h2 h3] by blast
qed


section \<open>Properties of the emotion inference\<close>

lemma sum_list_vals_divide:
  "sum_list (vals (map (\<lambda>(k, v). (k, v / c)) d)) = sum_list (vals d) / (c::real)"
  by (induction d) (auto simp: vals_def add_divide_distrib)

lemma normalize_sum_one:
  assumes "0 < sum_list (vals d)"
  shows "sum_list (vals (normalize_if_positive d)) = 1"
  using assms by (simp add: normalize_if_positive_def Let_def sum_list_vals_divide)

lemma normalize_not_positive:
  assumes "\<not> 0 < sum_list (vals d)"
  shows "normalize_if_positive d = d"
  using assms by (simp add: normalize_if_positive_def Let_def)

lemma sum_list_nonneg_vals:
  fixes d :: "real dict"
  assumes "list_all (\<lambda>(e, p). 0 \<le> p) d"
  shows "0 \<le> sum_list (vals d)"
  using assms by (induction d) (auto simp: vals_def)

lemma normalize_nonneg:
  fixes d :: "real dict"
  assumes "list_all (\<lambda>(e, p). 0 \<le> p) d"
  shows "list_all (\<lambda>(e, p). 0 \<le> p) (normalize_if_positive d)"
proof (cases "0 < sum_list (vals d)")
  case True
  then have "list_all (\<lambda>(e, p). 0 \<le> p) (map (\<lambda>(k, v). (k, v / sum_list (vals d))) d)"
    using assms by (auto simp: list_all_iff)
  with True show ?thesis
    by (simp add: normalize_if_positive_def Let_def)
next
  case False
  with assms show ?thesis
    by (simp add: normalize_not_positive)
qed

lemma keys_normalize: "keys (normalize_if_positive d) = keys d"
  by (simp add: normalize_if_positive_def Let_def keys_def comp_def case_prod_beta)

lemma dict_get_sum:
  fixes d :: "real dict"
  assumes "distinct (keys d)" and "finite U" and "set (keys d) \<subseteq> U"
  shows "(\<Sum>e \<in> U. dict_get d e 0) = sum_list (vals d)"
proof -
  have outside: "dict_get d e 0 = 0" if "e \<notin> set (keys d)" for e
  proof -
    from that have "map_of d e = None"
      by (simp add: map_of_eq_None_iff keys_def)
    then show ?thesis by (simp add: dict_get_def)
  qed
  have inside: "dict_get d (fst x) 0 = snd x" if "x \<in> set d" for x
  proof -
    from assms(1) that have "map_of d (fst x) = Some (snd x)"
      by (simp add: keys_def)
    then show ?thesis by (simp add: dict_get_def)
  qed
  have "(\<Sum>e \<in> U. dict_get d e 0) = (\<Sum>e \<in> set (keys d). dict_get d e 0)"
    using assms(2,3) outside by (intro sum.mono_neutral_right) auto
  also have "\<dots> = sum_list (map (\<lambda>e. dict_get d e 0) (keys d))"
    using assms(1) by (simp add: sum_list_distinct_conv_sum_set)
  also have "\<dots> = sum_list (map (\<lambda>x. dict_get d (fst x) 0) d)"
    by (simp add: keys_def comp_def)
  also have "\<dots> = sum_list (map snd d)"
    using inside by (simp cong: map_cong)
  finally show ?thesis by (simp add: vals_def)
qed

lemma combine_scores_sum:
  assumes "distinct (keys f)" and "distinct (keys m)"
  shows "sum_list (vals (combine_scores f m)) = 4/10 * sum_list (vals f) + 6/10 * sum_list (vals m)"
proof -
  let ?U = "set (keys f) \<union> set (keys m)"
  have "sum_list (vals (combine_scores f m)) =
          sum_list (map (\<lambda>e. dict_get f e 0 * (4/10) + dict_get m e 0 * (6/10))
                        (remdups (keys f @ keys m)))"
    by (simp add: combine_scores_def vals_def comp_def Let_def)
  also have "\<dots> = (\<Sum>e \<in> ?U. dict_get f e 0 * (4/10) + dict_get m e 0 * (6/10))"
    by (simp add: sum_list_distinct_conv_sum_set)
  also have "\<dots> = 4/10 * (\<Sum>e \<in> ?U. dict_get f e 0) + 6/10 * (\<Sum>e \<in> ?U. dict_get m e 0)"
    by (simp add: sum.distrib sum_distrib_left mult.commute)
  also have "(\<Sum>e \<in> ?U. dict_get f e 0) = sum_list (vals f)"
    using assms(1) by (intro dict_get_sum) auto
  also have "(\<Sum>e \<in> ?U. dict_get m e 0) = sum_list (vals m)"
    using assms(2) by (intro dict_get_sum) auto
  finally show ?thesis .
qed

lemma dict_get_nonneg:
  assumes "list_all (\<lambda>(e, p). 0 \<le> p) d"
  shows "0 \<le> dict_get d e (0::real)"
proof (cases "map_of d e")
  case None
  then show ?thesis by (simp add: dict_get_def)
next
  case (Some v)
  then have "(e, v) \<in> set d" by (rule map_of_SomeD)
  with assms have "0 \<le> v" by (auto simp: list_all_iff)
  with Some show ?thesis by (simp add: dict_get_def)
qed

lemma combine_scores_nonneg:
  assumes "list_all (\<lambda>(e, p). 0 \<le> p) f" and "list_all (\<lambda>(e, p). 0 \<le> p) m"
  shows "list_all (\<lambda>(e, p). 0 \<le> p) (combine_scores f m)"
  using dict_get_nonneg [OF assms(1)] dict_get_nonneg [OF assms(2)]
  by (simp add: combine_scores_def Let_def list_all_iff)

lemma keys_combine_scores: "keys (combine_scores f m) = remdups (keys f @ keys m)"
  by (simp add: combine_scores_def Let_def keys_def comp_def)

lemma dict_get_tabulate:
  "dict_get (map (\<lambda>e. (e, g e)) es) e dflt = (if e \<in> set es then g e else dflt)"
  by (induction es) (auto simp: dict_get_def)

lemma dict_get_combine_scores:
  "dict_get (combine_scores f m) e 0 =
     (if e \<in> set (keys f) \<union> set (keys m)
      then 4/10 * dict_get f e 0 + 6/10 * dict_get m e 0 else 0)"
  by (simp add: combine_scores_def Let_def dict_get_tabulate)

lemma movement_scores_nonneg:
  assumes "valid_features features"
  shows "list_all (\<lambda>(e, p). 0 \<le> p) (movement_scores features)"
  using assms by (simp add: movement_scores_def valid_features_def Let_def)

lemma movement_scores_total:
  assumes "valid_features features"
  shows "3/10 \<le> sum_list (vals (movement_scores features))"
proof -
  define v where "v = avg_velocity features"
  define var where "var = velocity_variance features"
  define a where "a = avg_acceleration features"
  define p where "p = pose_diversity features"
  define graceful :: real where "graceful = (if v > 3/10 \<and> var < 3/10 then 7/10 else 3/10)"
  have nonneg: "0 \<le> v" "0 \<le> var" "0 \<le> a" "0 \<le> p"
    using assms by (simp_all add: valid_features_def v_def var_def a_def p_def)
  have total: "sum_list (vals (movement_scores features)) =
      min 1 ((v * 2 + a) / 2) + (max 0 (1 - (v + var) / 2) + (min 1 ((a * 2 + var) / 2)
        + (graceful + (min 1 ((p * 3 + v) / 2) + max 0 (1 - (v + p) / 2)))))"
    by (simp add: movement_scores_def Let_def vals_def v_def var_def a_def p_def graceful_def)
  have "0 \<le> min 1 ((v * 2 + a) / 2)" using nonneg by simp
  moreover have "0 \<le> max 0 (1 - (v + var) / 2)" by simp
  moreover have "0 \<le> min 1 ((a * 2 + var) / 2)" using nonneg by simp
  moreover have "3/10 \<le> graceful" by (simp add: graceful_def)
  moreover have "0 \<le> min 1 ((p * 3 + v) / 2)" using nonneg by simp
  moreover have "0 \<le> max 0 (1 - (v + p) / 2)" by simp
  ultimately show ?thesis
    unfolding total by linarith
qed

lemma facial_distribution:
  "distribution_like (analyze_facial_presence detects_face fs)
   \<and> sum_list (vals (analyze_facial_presence detects_face fs)) = 1"
  by (simp add: analyze_facial_presence_def uniform_facial_def FACIAL_EMOTIONS_def
      distribution_like_def keys_def vals_def)


lemma movement_distribution:
  assumes "valid_features features"
  shows "distribution_like (analyze_movement_emotions features)"
proof -
  have "distinct (keys (movement_scores features))"
    by (simp add: movement_scores_def Let_def keys_def)
  then have "distinct (keys (analyze_movement_emotions features))"
    by (simp add: analyze_movement_emotions_def keys_normalize)
  moreover have "list_all (\<lambda>(e, p). 0 \<le> p) (analyze_movement_emotions features)"
    unfolding analyze_movement_emotions_def
    by (intro normalize_nonneg movement_scores_nonneg assms)
  ultimately show ?thesis
    by (simp add: distribution_like_def)
qed

lemma combine_emotions_sum:
  fixes f m :: "real dict"
  assumes "distribution_like f" and "distribution_like m"
  shows "sum_list (vals (combine_emotions f m)) =
           (if sum_list (vals f) = 0 \<and> sum_list (vals m) = 0 then 0 else 1)"
proof -
  have f0: "0 \<le> sum_list (vals f)" and m0: "0 \<le> sum_list (vals m)"
    using assms by (simp_all add: distribution_like_def sum_list_nonneg_vals)
  have total: "sum_list (vals (combine_scores f m)) =
                 4/10 * sum_list (vals f) + 6/10 * sum_list (vals m)"
    using assms by (simp add: distribution_like_def combine_scores_sum)
  show ?thesis
  proof (cases "sum_list (vals f) = 0 \<and> sum_list (vals m) = 0")
    case True
    with total have "\<not> 0 < sum_list (vals (combine_scores f m))" by simp
    then have "combine_emotions f m = combine_scores f m"
      by (simp add: combine_emotions_def normalize_not_positive)
    with total True show ?thesis by simp
  next
    case False
    with f0 m0 have "0 < 4/10 * sum_list (vals f) + 6/10 * sum_list (vals m)"
      by (cases "sum_list (vals f) = 0") (auto intro: add_nonneg_pos add_pos_nonneg)
    with total have "0 < sum_list (vals (combine_scores f m))" by simp
    then have "sum_list (vals (combine_emotions f m)) = 1"
      unfolding combine_emotions_def by (rule normalize_sum_one)
    with False show ?thesis by simp
  qed
qed

text \<open>
  Claim C1. For valid aggregated features the combined distribution of the inference has
  no negative value and sums to \<open>1\<close>. More generally, for any two distributions the
  combination has no negative value and sums to \<open>1\<close>, unless both sum to \<open>0\<close>, when it
  sums to \<open>0\<close>; its keys are the union of both vocabularies, the value at a key is
  \<open>0.4 * facial.get(e, 0) + 0.6 * movement.get(e, 0)\<close>, and the result is divided by
  its total when the total is positive.
\<close>

theorem combined_distribution:
  fixes f m :: "real dict"
  assumes "valid_features features" and "distribution_like f" and "distribution_like m"
  shows "(let analysis = analyze_emotions detects_face features
          in combined analysis = combine_emotions (facial analysis) (movement analysis)
             \<and> distribution_like (facial analysis)
             \<and> distribution_like (movement analysis)
             \<and> list_all (\<lambda>(e, p). 0 \<le> p) (combined analysis)
             \<and> sum_list (vals (combined analysis)) = 1)
         \<and> list_all (\<lambda>(e, p). 0 \<le> p) (combine_emotions f m)
         \<and> (\<not> (sum_list (vals f) = 0 \<and> sum_list (vals m) = 0)
                \<longrightarrow> sum_list (vals (combine_emotions f m)) = 1)
         \<and> (sum_list (vals f) = 0 \<and> sum_list (vals m) = 0
                \<longrightarrow> sum_list (vals (combine_emotions f m)) = 0)
         \<and> set (keys (combine_scores f m)) = set (keys f) \<union> set (keys m)
         \<and> (\<forall>e. dict_get (combine_scores f m) e 0 =
                  (if e \<in> set (keys f) \<union> set (keys m)
                   then 4/10 * dict_get f e 0 + 6/10 * dict_get m e 0 else 0))
         \<and> combine_emotions f m =
               (let total = sum_list (vals (combine_scores f m))
                in if 0 < total then map (\<lambda>(k, v). (k, v / total)) (combine_scores f m)
                   else combine_scores f m)"
proof -
  let ?f = "analyze_facial_presence detects_face (sample_frames features)"
  let ?m = "analyze_movement_emotions features"
  have facial: "distribution_like ?f" and f_sum: "sum_list (vals ?f) = 1"
    using facial_distribution [of detects_face "sample_frames features"] by simp_all
  have movement: "distribution_like ?m"
    by (rule movement_distribution [OF assms(1)])
  have nonneg: "list_all (\<lambda>(e, p). 0 \<le> p) (combine_emotions a b)"
    if "distribution_like a" and "distribution_like b" for a b
    unfolding combine_emotions_def using that
    by (intro normalize_nonneg combine_scores_nonneg) (simp_all add: distribution_like_def)
  have "sum_list (vals (combine_emotions ?f ?m)) = 1"
    using combine_emotions_sum [OF facial movement] f_sum by simp
  with facial movement nonneg [OF facial movement]
  have engine: "let analysis = analyze_emotions detects_face features
          in combined analysis = combine_emotions (facial analysis) (movement analysis)
             \<and> distribution_like (facial analysis)
             \<and> distribution_like (movement analysis)
             \<and> list_all (\<lambda>(e, p). 0 \<le> p) (combined analysis)
             \<and> sum_list (vals (combined analysis)) = 1"
    by (simp add: analyze_emotions_def Let_def)
  have keys: "set (keys (combine_scores f m)) = set (keys f) \<union> set (keys m)"
    by (simp add: keys_combine_scores)
  have formula: "\<forall>e. dict_get (combine_scores f m) e 0 =
                  (if e \<in> set (keys f) \<union> set (keys m)
                   then 4/10 * dict_get f e 0 + 6/10 * dict_get m e 0 else 0)"
    by (simp only: dict_get_combine_scores) simp
  have renorm: "combine_emotions f m =
               (let total = sum_list (vals (combine_scores f m))
                in if 0 < total then map (\<lambda>(k, v). (k, v / total)) (combine_scores f m)
                   else combine_scores f m)"
    by (simp add: combine_emotions_def normalize_if_positive_def)
  from engine nonneg [OF assms(2,3)] combine_emotions_sum [OF assms(2,3)] keys formula renorm
  show ?thesis
    by (simp only: simp_thms if_True if_False split: if_splits) 
qed

theorem combined_distribution_witness:
  "valid_features \<lparr>avg_velocity = 0, max_velocity = 0, velocity_variance = 0,
        avg_acceleration = 0, acceleration_variance = 0, pose_diversity = 0,
        sample_frames = [] :: unit list\<rparr>
   \<and> distribution_like [(''happy'', 1)] \<and> distribution_like [(''calm'', 0)]
   \<and> distribution_like [(''happy'', 0)]
   \<and> sum_list (vals (combined (analyze_emotions (\<lambda>frame. False)
         \<lparr>avg_velocity = 0, max_velocity = 0, velocity_variance = 0,
          avg_acceleration = 0, acceleration_variance = 0, pose_diversity = 0,
          sample_frames = [] :: unit list\<rparr>))) = 1
   \<and> sum_list (vals (combine_emotions [(''happy'', 1)] [(''calm'', 0)])) = 1
   \<and> sum_list (vals (combine_emotions [(''happy'', 0)] [(''calm'', 0)])) = 0"
proof -
  let ?zero = "\<lparr>avg_velocity = 0, max_velocity = 0, velocity_variance = 0,
        avg_acceleration = 0, acceleration_variance = 0, pose_diversity = 0,
        sample_frames = [] :: unit list\<rparr>"
  have valid: "valid_features ?zero"
    by (simp add: valid_features_def)
  have happy1: "distribution_like [(''happy'', 1)]" and calm0: "distribution_like [(''calm'', 0)]"
    and happy0: "distribution_like [(''happy'', 0)]"
    by (simp_all add: distribution_like_def keys_def)
  have positive: "\<not> (sum_list (vals [(''happy'', 1::real)]) = 0
                      \<and> sum_list (vals [(''calm'', 0::real)]) = 0)"
    and zero: "sum_list (vals [(''happy'', 0::real)]) = 0 \<and> sum_list (vals [(''calm'', 0::real)]) = 0"
    by (simp_all add: vals_def)
  show ?thesis
    using valid happy1 calm0 happy0 positive zero
      combined_distribution [OF valid happy1 calm0, of "\<lambda>frame. False"]
      combined_distribution [OF valid happy0 calm0, of "\<lambda>frame. False"]
    unfolding Let_def by blast
qed


text \<open>
  Claim C10. For aggregated features without negative fields, the graceful component is
  \<open>0.7\<close> or \<open>0.3\<close>, the six movement scores have a positive total, the movement
  distribution is the scores divided by that total and sums to \<open>1\<close>, and the weighted
  combination has a positive total as well, so that neither normalisation is skipped.
\<close>

theorem movement_total_positive:
  assumes "valid_features features"
  shows "let raw = movement_scores features;
             analysis = analyze_emotions detects_face features;
             mixed = combine_scores (facial analysis) (movement analysis)
         in (dict_get raw ''graceful'' 0 = 7/10 \<or> dict_get raw ''graceful'' 0 = 3/10)
            \<and> 0 < sum_list (vals raw)
            \<and> movement analysis = map (\<lambda>(k, v). (k, v / sum_list (vals raw))) raw
            \<and> sum_list (vals (movement analysis)) = 1
            \<and> 0 < sum_list (vals mixed)
            \<and> combined analysis = map (\<lambda>(k, v). (k, v / sum_list (vals mixed))) mixed"
proof -
  let ?raw = "movement_scores features"
  let ?f = "analyze_facial_presence detects_face (sample_frames features)"
  let ?m = "analyze_movement_emotions features"
  have graceful: "dict_get ?raw ''graceful'' 0 = 7/10 \<or> dict_get ?raw ''graceful'' 0 = 3/10"
    by (simp add: movement_scores_def Let_def dict_get_def)
  have pos: "0 < sum_list (vals ?raw)"
    using movement_scores_total [OF assms] by linarith
  then have m_eq: "?m = map (\<lambda>(k, v). (k, v / sum_list (vals ?raw))) ?raw"
    by (simp add: analyze_movement_emotions_def normalize_if_positive_def Let_def)
  have m_sum: "sum_list (vals ?m) = 1"
    unfolding analyze_movement_emotions_def using pos by (rule normalize_sum_one)
  have "distinct (keys ?m)"
    by (simp add: analyze_movement_emotions_def keys_normalize) (simp add: movement_scores_def Let_def keys_def)
  moreover have "distinct (keys ?f)" and f_sum: "sum_list (vals ?f) = 1"
    using facial_distribution [of detects_face "sample_frames features"]
    by (simp_all add: distribution_like_def)
  ultimately have "sum_list (vals (combine_scores ?f ?m)) = 1"
    using m_sum by (simp add: combine_scores_sum)
  then have c_pos: "0 < sum_list (vals (combine_scores ?f ?m))"
    by simp
  then have c_eq: "combine_emotions ?f ?m =
      map (\<lambda>(k, v). (k, v / sum_list (vals (combine_scores ?f ?m)))) (combine_scores ?f ?m)"
    by (simp add: combine_emotions_def normalize_if_positive_def Let_def)
  show ?thesis
    unfolding Let_def analyze_emotions_def
    using graceful pos m_eq m_sum c_pos c_eq by simp
qed


theorem movement_total_positive_witness:
  "valid_features \<lparr>avg_velocity = 0, max_velocity = 0, velocity_variance = 0,
        avg_acceleration = 0, acceleration_variance = 0, pose_diversity = 0,
        sample_frames = [] :: unit list\<rparr>
   \<and> sum_list (vals (movement_scores \<lparr>avg_velocity = 0, max_velocity = 0, velocity_variance = 0,
        avg_acceleration = 0, acceleration_variance = 0, pose_diversity = 0,
        sample_frames = [] :: unit list\<rparr>)) = 23/10
   \<and> sum_list (vals (movement (analyze_emotions (\<lambda>frame. False)
         \<lparr>avg_velocity = 0, max_velocity = 0, velocity_variance = 0,
          avg_acceleration = 0, acceleration_variance = 0, pose_diversity = 0,
          sample_frames = [] :: unit list\<rparr>))) = 1"
proof -
  let ?zero = "\<lparr>avg_velocity = 0, max_velocity = 0, velocity_variance = 0,
        avg_acceleration = 0, acceleration_variance = 0, pose_diversity = 0,
        sample_frames = [] :: unit list\<rparr>"
  have valid: "valid_features ?zero"
    by (simp add: valid_features_def)
  have "sum_list (vals (movement_scores ?zero)) = 23/10"
    by (simp add: movement_scores_def Let_def vals_def)
  then show ?thesis
    using valid movement_total_positive [OF valid, of "\<lambda>frame. False"]
    unfolding Let_def by blast
qed


subsection \<open>Features without any motion\<close>

lemma zero_features_movement:
  "analyze_movement_emotions \<lparr>avg_velocity = 0, max_velocity = 0, velocity_variance = 0,
        avg_acceleration = 0, acceleration_variance = 0, pose_diversity = 0,
        sample_frames = []\<rparr> =
     [(''energetic'', 0), (''calm'', 10/23), (''aggressive'', 0), (''graceful'', 3/23),
      (''playful'', 0), (''melancholic'', 10/23)]"
  by (simp add: analyze_movement_emotions_def movement_scores_def normalize_if_positive_def
      vals_def Let_def)

lemma zero_features_combined:
  "combined (analyze_emotions detects_face
       \<lparr>avg_velocity = 0, max_velocity = 0, velocity_variance = 0,
        avg_acceleration = 0, acceleration_variance = 0, pose_diversity = 0,
        sample_frames = []\<rparr>) =
     [(''happy'', 2/35), (''sad'', 2/35), (''angry'', 2/35), (''surprise'', 2/35),
      (''neutral'', 2/35), (''fear'', 2/35), (''disgust'', 2/35),
      (''energetic'', 0), (''calm'', 6/23), (''aggressive'', 0), (''graceful'', 9/115),
      (''playful'', 0), (''melancholic'', 6/23)]"
  unfolding analyze_emotions_def Let_def zero_features_movement
  by (simp add: analyze_facial_presence_def uniform_facial_def FACIAL_EMOTIONS_def
      combine_emotions_def combine_scores_def normalize_if_positive_def keys_def vals_def
      dict_get_def Let_def)


lemma zero_features_dance_scores:
  "dance_scores_of
     [(''happy'', 2/35), (''sad'', 2/35), (''angry'', 2/35), (''surprise'', 2/35),
      (''neutral'', 2/35), (''fear'', 2/35), (''disgust'', 2/35),
      (''energetic'', 0), (''calm'', 6/23), (''aggressive'', 0), (''graceful'', 9/115),
      (''playful'', 0), (''melancholic'', 6/23)] =
   [(''Ballet'', 2028 / 4025), (''Hip-Hop'', 3 / 35), (''Contemporary'', 4721 / 8050),
    (''Jazz'', 13 / 175), (''Salsa'', 9 / 175), (''Breakdance'', 8 / 175),
    (''Ballroom'', 36 / 575), (''Tap'', 6 / 175), (''Lyrical'', 1864 / 4025),
    (''Freestyle'', 4 / 25)]"
  unfolding dance_scores_of_eq
  by (simp add: DANCE_STYLES_def affinity_of_def emotion_dance_matrix_def)

text \<open>
  Claim C6, as stated, fails: for the all-zero features without sample frames the
  deterministic engine does not return an empty list.
\<close>

theorem all_zero_features_counterexample:
  "recommendations (classical_recommend (combined (analyze_emotions no_face
       \<lparr>avg_velocity = 0, max_velocity = 0, velocity_variance = 0,
        avg_acceleration = 0, acceleration_variance = 0, pose_diversity = 0,
        sample_frames = [] :: unit list\<rparr>))) \<noteq> []"
  unfolding zero_features_combined classical_recommend_def Let_def classical_recommendations_def
    zero_features_dance_scores
  by (simp add: sorted_desc_def TOP_K_RECOMMENDATIONS_def)

text \<open>
  Claim C6, amended. For the all-zero features without sample frames, the facial
  distribution is uniform, the movement distribution gives \<open>calm\<close> and \<open>melancholic\<close>
  \<open>10/23\<close> each and \<open>graceful\<close> \<open>3/23\<close>, the combined distribution is their
  \<open>0.4 / 0.6\<close> mixture (not all-zero), and the deterministic engine returns five
  recommendations with positive scores: Contemporary, Ballet, Lyrical, Freestyle, Hip-Hop.
\<close>

theorem all_zero_features_recommendations:
  "let analysis = analyze_emotions detects_face
         \<lparr>avg_velocity = 0, max_velocity = 0, velocity_variance = 0,
          avg_acceleration = 0, acceleration_variance = 0, pose_diversity = 0,
          sample_frames = []\<rparr>;
       recs = recommendations (classical_recommend (combined analysis))
   in facial analysis = uniform_facial
      \<and> movement analysis =
          [(''energetic'', 0), (''calm'', 10/23), (''aggressive'', 0), (''graceful'', 3/23),
           (''playful'', 0), (''melancholic'', 10/23)]
      \<and> combined analysis =
          [(''happy'', 2/35), (''sad'', 2/35), (''angry'', 2/35), (''surprise'', 2/35),
           (''neutral'', 2/35), (''fear'', 2/35), (''disgust'', 2/35),
           (''energetic'', 0), (''calm'', 6/23), (''aggressive'', 0), (''graceful'', 9/115),
           (''playful'', 0), (''melancholic'', 6/23)]
      \<and> map dance_style recs = [''Contemporary'', ''Ballet'', ''Lyrical'', ''Freestyle'', ''Hip-Hop'']
      \<and> map score recs = [4721 / 8050, 2028 / 4025, 1864 / 4025, 4 / 25, 3 / 35]"
proof -
  have "map dance_style (classical_recommendations
     [(''happy'', 2/35), (''sad'', 2/35), (''angry'', 2/35), (''surprise'', 2/35),
      (''neutral'', 2/35), (''fear'', 2/35), (''disgust'', 2/35),
      (''energetic'', 0), (''calm'', 6/23), (''aggressive'', 0), (''graceful'', 9/115),
      (''playful'', 0), (''melancholic'', 6/23)]) =
      [''Contemporary'', ''Ballet'', ''Lyrical'', ''Freestyle'', ''Hip-Hop'']"
    unfolding classical_recommendations_def zero_features_dance_scores
    by (simp add: sorted_desc_def TOP_K_RECOMMENDATIONS_def)
  moreover have "map score (classical_recommendations
     [(''happy'', 2/35), (''sad'', 2/35), (''angry'', 2/35), (''surprise'', 2/35),
      (''neutral'', 2/35), (''fear'', 2/35), (''disgust'', 2/35),
      (''energetic'', 0), (''calm'', 6/23), (''aggressive'', 0), (''graceful'', 9/115),
      (''playful'', 0), (''melancholic'', 6/23)]) =
      [4721 / 8050, 2028 / 4025, 1864 / 4025, 4 / 25, 3 / 35]"
    unfolding classical_recommendations_def zero_features_dance_scores
    by (simp add: sorted_desc_def TOP_K_RECOMMENDATIONS_def)
  moreover have "facial (analyze_emotions detects_face
         \<lparr>avg_velocity = 0, max_velocity = 0, velocity_variance = 0,
          avg_acceleration = 0, acceleration_variance = 0, pose_diversity = 0,
          sample_frames = []\<rparr>) = uniform_facial"
    by (simp add: analyze_emotions_def Let_def analyze_facial_presence_def)
  moreover have "movement (analyze_emotions detects_face
         \<lparr>avg_velocity = 0, max_velocity = 0, velocity_variance = 0,
          avg_acceleration = 0, acceleration_variance = 0, pose_diversity = 0,
          sample_frames = []\<rparr>) =
          [(''energetic'', 0), (''calm'', 10/23), (''aggressive'', 0), (''graceful'', 3/23),
           (''playful'', 0), (''melancholic'', 10/23)]"
    unfolding analyze_emotions_def Let_def zero_features_movement by simp
  ultimately show ?thesis
    unfolding Let_def zero_features_combined
    by (simp add: classical_recommend_def Let_def)
qed


section \<open>Properties of the feature extractor\<close>

text \<open>
  A run on six frames with a tracker that moves its single point by two pixels: frames
  \<open>0\<close> and \<open>5\<close> are sampled, the second one yields the velocity \<open>2\<close>, which the
  aggregation scales to \<open>1\<close>.
\<close>

lemma extract_features_example:
  "extract_features
     \<lparr>cvtColor = \<lambda>frame::nat. frame,
      goodFeaturesToTrack = \<lambda>gray. Some [(0, 0)],
      calcOpticalFlowPyrLK = \<lambda>previous gray points.
        (Some (map (\<lambda>(x, y). (x + 2, y)) points), map (\<lambda>point. True) points)\<rparr>
     \<lparr>is_opened = True, stream = [1, 2, 3, 4, 5, 6]\<rparr> =
   Inr \<lparr>avg_velocity = 1, max_velocity = 1, velocity_variance = 0,
        avg_acceleration = 2, acceleration_variance = 0, pose_diversity = 0,
        sample_frames = [1, 6]\<rparr>"
  by (simp add: extract_features_def collect_features_def process_frame_def
      initial_extraction_def Let_def FRAME_SAMPLE_RATE_def track_motion_def select_good_def
      aggregate_features_def np_mean_def np_var_def np_std_def np_max_def)


lemma track_motion_aligned:
  assumes "samples_aligned st"
  shows "samples_aligned (track_motion cv previous gray st)"
  using assms
  by (auto simp: track_motion_def samples_aligned_def Let_def split: option.splits prod.splits)

lemma process_frame_aligned:
  assumes "samples_aligned st"
  shows "samples_aligned (process_frame cv frame st)"
proof -
  have keep: "samples_aligned (if length (frames s) < 10 then s\<lparr>frames := frames s @ [frame]\<rparr> else s)"
    if "samples_aligned s" for s :: "('a, 'b) extraction"
    using that by (simp add: samples_aligned_def)
  have "samples_aligned (case prev_gray st of None \<Rightarrow> st
                         | Some previous \<Rightarrow> track_motion cv previous (cvtColor cv frame) st)"
    using assms by (simp add: track_motion_aligned split: option.splits)
  from keep [OF this] show ?thesis
    using assms by (simp add: process_frame_def Let_def samples_aligned_def)
qed

lemma fold_process_frame_aligned:
  assumes "samples_aligned st"
  shows "samples_aligned (fold (process_frame cv) fs st)"
  using assms by (induction fs arbitrary: st) (simp_all add: process_frame_aligned)

lemma collect_features_aligned: "samples_aligned (collect_features cv cap)"
  unfolding collect_features_def
  by (rule fold_process_frame_aligned) (simp add: samples_aligned_def initial_extraction_def)

lemma aggregate_no_samples:
  assumes "samples_aligned features" and "velocities features = []"
  shows "aggregate_features features =
           \<lparr>avg_velocity = 0, max_velocity = 0, velocity_variance = 0,
            avg_acceleration = 0, acceleration_variance = 0, pose_diversity = 0,
            sample_frames = frames features\<rparr>"
proof -
  from assms have "accelerations features = []" and "motion_magnitudes features = []"
    by (simp_all add: samples_aligned_def)
  with assms(2) show ?thesis
    by (simp add: aggregate_features_def)
qed

text \<open>
  Claim C8. The extractor fails, with the error of an unreadable video, exactly when the
  capture is not open, and it has no other error. The failure comes before the loop and
  the aggregation: it is the same whatever frames and image operations are there. For an
  open capture from which no motion sample is collected, the extractor returns features
  whose six numeric fields are \<open>0\<close>.
\<close>

theorem extract_features_unreadable:
  "(extract_features cv cap = Inl VideoUnreadable \<longleftrightarrow> \<not> is_opened cap)
   \<and> (\<forall>e. extract_features cv cap = Inl e \<longrightarrow> e = VideoUnreadable \<and> \<not> is_opened cap)
   \<and> (\<not> is_opened cap \<longrightarrow>
        (\<forall>cv' frames'. extract_features cv' (cap\<lparr>stream := frames'\<rparr>) = Inl VideoUnreadable))
   \<and> (is_opened cap \<and> velocities (collect_features cv cap) = [] \<longrightarrow>
        extract_features cv cap =
          Inr \<lparr>avg_velocity = 0, max_velocity = 0, velocity_variance = 0,
               avg_acceleration = 0, acceleration_variance = 0, pose_diversity = 0,
               sample_frames = frames (collect_features cv cap)\<rparr>)"
proof -
  have "is_opened cap \<and> velocities (collect_features cv cap) = [] \<longrightarrow>
        extract_features cv cap =
          Inr \<lparr>avg_velocity = 0, max_velocity = 0, velocity_variance = 0,
               avg_acceleration = 0, acceleration_variance = 0, pose_diversity = 0,
               sample_frames = frames (collect_features cv cap)\<rparr>"
    using aggregate_no_samples [OF collect_features_aligned, of cv cap]
    by (simp add: extract_features_def)
  then show ?thesis
    by (simp add: extract_features_def)
qed

theorem extract_features_unreadable_witness:
  "extract_features \<lparr>cvtColor = \<lambda>frame::nat. frame, goodFeaturesToTrack = \<lambda>gray. None,
                     calcOpticalFlowPyrLK = \<lambda>previous gray points. (None, [])\<rparr>
                    \<lparr>is_opened = False, stream = [7]\<rparr> = Inl VideoUnreadable
   \<and> \<not> is_opened \<lparr>is_opened = False, stream = [7::nat]\<rparr>
   \<and> is_opened \<lparr>is_opened = True, stream = [7::nat]\<rparr>
   \<and> velocities (collect_features
         \<lparr>cvtColor = \<lambda>frame::nat. frame, goodFeaturesToTrack = \<lambda>gray. None,
          calcOpticalFlowPyrLK = \<lambda>previous gray points. (None, [])\<rparr>
         \<lparr>is_opened = True, stream = [7]\<rparr>) = []
   \<and> extract_features \<lparr>cvtColor = \<lambda>frame::nat. frame, goodFeaturesToTrack = \<lambda>gray. None,
                     calcOpticalFlowPyrLK = \<lambda>previous gray points. (None, [])\<rparr>
                    \<lparr>is_opened = True, stream = [7]\<rparr> =
       Inr \<lparr>avg_velocity = 0, max_velocity = 0, velocity_variance = 0,
            avg_acceleration = 0, acceleration_variance = 0, pose_diversity = 0,
            sample_frames = [7]\<rparr>"
proof -
  let ?cv = "\<lparr>cvtColor = \<lambda>frame::nat. frame, goodFeaturesToTrack = \<lambda>gray. None,
              calcOpticalFlowPyrLK = \<lambda>previous gray points. (None, [])\<rparr>"
  let ?closed = "\<lparr>is_opened = False, stream = [7::nat]\<rparr>"
  let ?opened = "\<lparr>is_opened = True, stream = [7::nat]\<rparr>"
  have closed: "\<not> is_opened ?closed" and opened: "is_opened ?opened"
    by simp_all
  have no_samples: "velocities (collect_features ?cv ?opened) = []"
    and kept: "frames (collect_features ?cv ?opened) = [7]"
    by (simp_all add: collect_features_def process_frame_def initial_extraction_def Let_def
        FRAME_SAMPLE_RATE_def)
  from extract_features_unreadable [of ?cv ?closed] closed
  have raised: "extract_features ?cv ?closed = Inl VideoUnreadable"
    by blast
  from extract_features_unreadable [of ?cv ?opened] opened no_samples
  have "extract_features ?cv ?opened =
       Inr \<lparr>avg_velocity = 0, max_velocity = 0, velocity_variance = 0,
            avg_acceleration = 0, acceleration_variance = 0, pose_diversity = 0,
            sample_frames = frames (collect_features ?cv ?opened)\<rparr>"
    by blast
  with closed opened no_samples raised show ?thesis
    unfolding kept by blast
qed


section \<open>Properties of the amplitude engine\<close>

subsection \<open>The superposition state\<close>

lemma keys_create_basis: "keys (create_basis names) = names"
proof -
  have "map fst (map (\<lambda>(i, name). (name, basis_vector i)) (enumerate n names)) = names" for n
    by (induction names arbitrary: n) simp_all
  then show ?thesis
    by (simp only: keys_def create_basis_def)
qed

lemma create_basis_lookup:
  assumes "map_of (create_basis names) e = Some b"
  shows "\<exists>i < length names. names ! i = e \<and> b = basis_vector i"
proof -
  from assms have "(e, b) \<in> set (create_basis names)"
    by (rule map_of_SomeD)
  then obtain i name where "(i, name) \<in> set (enumerate 0 names)"
    and "e = name" and "b = basis_vector i"
    by (auto simp: create_basis_def)
  then show ?thesis
    by (auto simp: in_set_enumerate_eq)
qed

lemma create_basis_defined:
  assumes "e \<in> set names"
  shows "\<exists>b. map_of (create_basis names) e = Some b"
proof -
  have "set (keys (create_basis names)) = set names"
    by (simp add: keys_create_basis)
  with assms have "e \<in> fst ` set (create_basis names)"
    by (simp add: keys_def)
  then have "map_of (create_basis names) e \<noteq> None"
    by (simp add: map_of_eq_None_iff)
  then show ?thesis by auto
qed

lemma emotion_basis_lookup:
  assumes "e \<in> set (FACIAL_EMOTIONS @ MOVEMENT_EMOTIONS)"
  shows "\<exists>i < length (FACIAL_EMOTIONS @ MOVEMENT_EMOTIONS).
           (FACIAL_EMOTIONS @ MOVEMENT_EMOTIONS) ! i = e
           \<and> map_of emotion_basis e = Some ((replicate QUANTUM_DIMENSIONS 0)[i := 1])"
proof -
  from create_basis_defined [OF assms] obtain b where b: "map_of emotion_basis e = Some b"
    by (auto simp: emotion_basis_def)
  from create_basis_lookup [OF b [unfolded emotion_basis_def]] obtain i
    where i: "i < length (FACIAL_EMOTIONS @ MOVEMENT_EMOTIONS)"
      and e: "(FACIAL_EMOTIONS @ MOVEMENT_EMOTIONS) ! i = e" and bv: "b = basis_vector i"
    by blast
  from i have "i < QUANTUM_DIMENSIONS"
    by (simp add: FACIAL_EMOTIONS_def MOVEMENT_EMOTIONS_def QUANTUM_DIMENSIONS_def)
  with bv have "b = (replicate QUANTUM_DIMENSIONS 0)[i := 1]"
    by (simp add: basis_vector_def)
  with b i e show ?thesis by blast
qed

lemma add_scaled_unit:
  assumes "i < n" and "length s = n"
  shows "add_scaled s c ((replicate n 0)[i := 1]) = s[i := s ! i + c]"
proof (rule nth_equalityI)
  show "length (add_scaled s c ((replicate n 0)[i := 1])) = length (s[i := s ! i + c])"
    using assms by (simp add: add_scaled_def)
next
  fix j
  assume "j < length (add_scaled s c ((replicate n 0)[i := 1]))"
  then have "j < n" using assms by (simp add: add_scaled_def)
  then show "add_scaled s c ((replicate n 0)[i := 1]) ! j = s[i := s ! i + c] ! j"
    using assms by (simp add: add_scaled_def nth_list_update)
qed

lemma squared_norm_update:
  assumes "i < length s"
  shows "squared_norm (s[i := z]) = squared_norm s - (cmod (s ! i))\<^sup>2 + (cmod z)\<^sup>2"
  using assms
  by (induction s arbitrary: i) (auto simp: squared_norm_def nth_Cons split: nat.splits)

lemma superposition_step_known:
  assumes "i < length (FACIAL_EMOTIONS @ MOVEMENT_EMOTIONS)"
    and "map_of emotion_basis e = Some ((replicate QUANTUM_DIMENSIONS 0)[i := 1])"
    and "length s = QUANTUM_DIMENSIONS"
  shows "superposition_step rng (e, p) (s, k) =
           (s[i := s ! i + complex_of_real (sqrt p) * cis (rng k)], Suc k)"
proof -
  from assms(1) have "i < QUANTUM_DIMENSIONS"
    by (simp add: FACIAL_EMOTIONS_def MOVEMENT_EMOTIONS_def QUANTUM_DIMENSIONS_def)
  then show ?thesis
    using assms(2,3) by (simp add: superposition_step_def Let_def add_scaled_unit)
qed

lemma superposition_fold:
  fixes emotions :: "real dict"
  assumes "distinct (keys emotions)" and "list_all (\<lambda>(e, p). 0 \<le> p) emotions"
    and "set (keys emotions) \<subseteq> set (FACIAL_EMOTIONS @ MOVEMENT_EMOTIONS)"
    and "length s = QUANTUM_DIMENSIONS"
    and "\<forall>e \<in> set (keys emotions). \<forall>i < length (FACIAL_EMOTIONS @ MOVEMENT_EMOTIONS).
           (FACIAL_EMOTIONS @ MOVEMENT_EMOTIONS) ! i = e \<longrightarrow> s ! i = 0"
  shows "squared_norm (fst (fold (superposition_step rng) emotions (s, k)))
           = squared_norm s + sum_list (vals emotions)
         \<and> length (fst (fold (superposition_step rng) emotions (s, k))) = QUANTUM_DIMENSIONS"
  using assms
proof (induction emotions arbitrary: s k)
  case Nil
  then show ?case by (simp add: vals_def)
next
  case (Cons entry emotions)
  let ?names = "FACIAL_EMOTIONS @ MOVEMENT_EMOTIONS"
  obtain e p where entry: "entry = (e, p)" by (cases entry)
  from Cons.prems(3) have "e \<in> set ?names" by (simp add: entry keys_def)
  from emotion_basis_lookup [OF this] obtain i where i: "i < length ?names"
    and name: "?names ! i = e"
    and basis: "map_of emotion_basis e = Some ((replicate QUANTUM_DIMENSIONS 0)[i := 1])"
    by blast
  from i have i16: "i < QUANTUM_DIMENSIONS"
    by (simp add: FACIAL_EMOTIONS_def MOVEMENT_EMOTIONS_def QUANTUM_DIMENSIONS_def)
  from Cons.prems(5) i name have empty: "s ! i = 0" by (simp add: entry keys_def)
  from Cons.prems(2) have p: "0 \<le> p" by (simp add: entry)
  let ?s = "s[i := complex_of_real (sqrt p) * cis (rng k)]"
  have step: "superposition_step rng entry (s, k) = (?s, Suc k)"
    using superposition_step_known [OF i basis Cons.prems(4), of rng p k] empty
    by (simp add: entry)
  have sq: "squared_norm ?s = squared_norm s + p"
    using i16 Cons.prems(4) empty p by (simp add: squared_norm_update norm_mult)
  have "distinct (keys emotions)" and "list_all (\<lambda>(e, p). 0 \<le> p) emotions"
    and "set (keys emotions) \<subseteq> set ?names" and "length ?s = QUANTUM_DIMENSIONS"
    using Cons.prems by (simp_all add: keys_def)
  moreover have "\<forall>e' \<in> set (keys emotions). \<forall>j < length ?names. ?names ! j = e' \<longrightarrow> ?s ! j = 0"
  proof (intro ballI allI impI)
    fix e' j
    assume e': "e' \<in> set (keys emotions)" and j: "j < length ?names" and "?names ! j = e'"
    from Cons.prems(1) e' have "e' \<noteq> e" by (auto simp: entry keys_def)
    with \<open>?names ! j = e'\<close> name have "j \<noteq> i" by auto
    moreover from Cons.prems(5) e' j \<open>?names ! j = e'\<close> have "s ! j = 0"
      by (auto simp: keys_def)
    ultimately show "?s ! j = 0" by simp
  qed
  ultimately have "squared_norm (fst (fold (superposition_step rng) emotions (?s, Suc k)))
           = squared_norm ?s + sum_list (vals emotions)
         \<and> length (fst (fold (superposition_step rng) emotions (?s, Suc k))) = QUANTUM_DIMENSIONS"
    by (rule Cons.IH)
  with step sq show ?case
    by (simp add: entry vals_def)
qed

lemma superposition_raw_norm:
  fixes emotions :: "real dict"
  assumes "distribution_like emotions"
    and "set (keys emotions) \<subseteq> set (FACIAL_EMOTIONS @ MOVEMENT_EMOTIONS)"
  shows "squared_norm (fst (superposition_raw emotions rng)) = sum_list (vals emotions)"
    and "length (fst (superposition_raw emotions rng)) = QUANTUM_DIMENSIONS"
proof -
  have "squared_norm (fst (fold (superposition_step rng) emotions (replicate QUANTUM_DIMENSIONS 0, 0)))
           = squared_norm (replicate QUANTUM_DIMENSIONS 0) + sum_list (vals emotions)
         \<and> length (fst (fold (superposition_step rng) emotions (replicate QUANTUM_DIMENSIONS 0, 0)))
           = QUANTUM_DIMENSIONS"
    using assms
    by (intro superposition_fold)
      (simp_all add: distribution_like_def FACIAL_EMOTIONS_def MOVEMENT_EMOTIONS_def
        QUANTUM_DIMENSIONS_def)
  moreover have "squared_norm (replicate QUANTUM_DIMENSIONS 0) = 0"
    by (simp add: squared_norm_def sum_list_replicate)
  ultimately show "squared_norm (fst (superposition_raw emotions rng)) = sum_list (vals emotions)"
    and "length (fst (superposition_raw emotions rng)) = QUANTUM_DIMENSIONS"
    by (simp_all add: superposition_raw_def)
qed


lemma linalg_norm_squared_norm: "linalg_norm v = sqrt (squared_norm v)"
  by (simp add: linalg_norm_def squared_norm_def)

lemma squared_norm_scale:
  "squared_norm (map (\<lambda>z. z / complex_of_real c) v) = squared_norm v / c\<^sup>2"
  by (induction v) (simp_all add: squared_norm_def norm_divide power_divide add_divide_distrib)

lemma squared_norm_zero:
  assumes "squared_norm v = 0"
  shows "v = replicate (length v) 0"
proof (rule replicate_eqI)
  show "length v = length v" by simp
next
  fix z
  assume "z \<in> set v"
  have "\<forall>x \<in> set (map (\<lambda>z. (cmod z)\<^sup>2) v). x = 0"
    using assms unfolding squared_norm_def
    by (subst (asm) sum_list_nonneg_eq_0_iff) auto
  with \<open>z \<in> set v\<close> show "z = 0" by simp
qed

lemma length_basis_vector: "length (basis_vector i) = QUANTUM_DIMENSIONS"
  by (simp add: basis_vector_def Let_def)

lemma length_superposition_fold:
  assumes "length s = QUANTUM_DIMENSIONS"
  shows "length (fst (fold (superposition_step rng) emotions (s, k))) = QUANTUM_DIMENSIONS"
  using assms
proof (induction emotions arbitrary: s k)
  case Nil
  then show ?case by simp
next
  case (Cons entry emotions)
  obtain e p where entry: "entry = (e, p)" by (cases entry)
  show ?case
  proof (cases "map_of emotion_basis e")
    case None
    then have "superposition_step rng entry (s, k) = (s, k)"
      by (simp add: superposition_step_def entry)
    with Cons show ?thesis by simp
  next
    case (Some b)
    from create_basis_lookup [OF Some [unfolded emotion_basis_def]]
    have "length b = QUANTUM_DIMENSIONS"
      by (auto simp: length_basis_vector)
    with Cons.prems have "length (add_scaled s (complex_of_real (sqrt p) * cis (rng k)) b)
                            = QUANTUM_DIMENSIONS"
      by (simp add: add_scaled_def)
    moreover have "superposition_step rng entry (s, k) =
                     (add_scaled s (complex_of_real (sqrt p) * cis (rng k)) b, Suc k)"
      using Some by (simp add: superposition_step_def entry Let_def)
    ultimately show ?thesis
      using Cons.IH by simp
  qed
qed

lemma length_create_superposition_state:
  "length (create_superposition_state emotions rng) = QUANTUM_DIMENSIONS"
proof -
  have "length (fst (superposition_raw emotions rng)) = QUANTUM_DIMENSIONS"
    unfolding superposition_raw_def by (rule length_superposition_fold) simp
  then show ?thesis
    by (simp add: create_superposition_state_def Let_def)
qed

text \<open>
  Claim C2. For every emotion distribution (distinct categories of the vocabulary, no
  negative probability) and every sequence of phases: if the total probability is
  positive, the superposition state has Euclidean norm \<open>1\<close>; if it is \<open>0\<close>, the raw
  vector has norm \<open>0\<close>, the division is skipped and the state is the zero vector.
\<close>

theorem superposition_unit_norm:
  fixes emotions :: "real dict"
  assumes "distribution_like emotions"
    and "set (keys emotions) \<subseteq> set (FACIAL_EMOTIONS @ MOVEMENT_EMOTIONS)"
  shows "(0 < sum_list (vals emotions) \<longrightarrow>
            linalg_norm (create_superposition_state emotions rng) = 1)
         \<and> (sum_list (vals emotions) = 0 \<longrightarrow>
              linalg_norm (fst (superposition_raw emotions rng)) = 0
              \<and> create_superposition_state emotions rng = replicate QUANTUM_DIMENSIONS 0)"
proof (intro conjI impI)
  let ?raw = "fst (superposition_raw emotions rng)"
  note raw = superposition_raw_norm [OF assms, of rng]
  {
    assume total: "0 < sum_list (vals emotions)"
    with raw(1) have norm: "0 < linalg_norm ?raw"
      by (simp add: linalg_norm_squared_norm)
    then have "create_superposition_state emotions rng =
                 map (\<lambda>z. z / complex_of_real (linalg_norm ?raw)) ?raw"
      by (simp add: create_superposition_state_def Let_def)
    then have "linalg_norm (create_superposition_state emotions rng)
                 = sqrt (squared_norm ?raw / (linalg_norm ?raw)\<^sup>2)"
      by (simp add: linalg_norm_squared_norm squared_norm_scale)
    also have "(linalg_norm ?raw)\<^sup>2 = squared_norm ?raw"
      using total raw(1) by (simp add: linalg_norm_squared_norm)
    also have "sqrt (squared_norm ?raw / squared_norm ?raw) = 1"
      using total raw(1) by simp
    finally show "linalg_norm (create_superposition_state emotions rng) = 1" .
  }
  {
    assume total: "sum_list (vals emotions) = 0"
    with raw(1) show zero: "linalg_norm ?raw = 0"
      by (simp add: linalg_norm_squared_norm)
    from total raw have "?raw = replicate QUANTUM_DIMENSIONS 0"
      using squared_norm_zero [of ?raw] by simp
    with zero show "create_superposition_state emotions rng = replicate QUANTUM_DIMENSIONS 0"
      by (simp add: create_superposition_state_def Let_def)
  }
qed

theorem superposition_unit_norm_witness:
  "distribution_like [(''happy'', 1)]
   \<and> set (keys [(''happy'', 1::real)]) \<subseteq> set (FACIAL_EMOTIONS @ MOVEMENT_EMOTIONS)
   \<and> 0 < sum_list (vals [(''happy'', 1::real)])
   \<and> linalg_norm (create_superposition_state [(''happy'', 1)] (\<lambda>draw. 0)) = 1
   \<and> distribution_like [(''happy'', 0)]
   \<and> sum_list (vals [(''happy'', 0::real)]) = 0
   \<and> create_superposition_state [(''happy'', 0)] (\<lambda>draw. 0) = replicate QUANTUM_DIMENSIONS 0"
proof -
  have d1: "distribution_like [(''happy'', 1)]" and d0: "distribution_like [(''happy'', 0)]"
    by (simp_all add: distribution_like_def keys_def)
  have k1: "set (keys [(''happy'', 1::real)]) \<subseteq> set (FACIAL_EMOTIONS @ MOVEMENT_EMOTIONS)"
    and k0: "set (keys [(''happy'', 0::real)]) \<subseteq> set (FACIAL_EMOTIONS @ MOVEMENT_EMOTIONS)"
    by (simp_all add: keys_def FACIAL_EMOTIONS_def)
  have s1: "0 < sum_list (vals [(''happy'', 1::real)])"
    and s0: "sum_list (vals [(''happy'', 0::real)]) = 0"
    by (simp_all add: vals_def)
  show ?thesis
    using d1 d0 k1 s1 s0
      superposition_unit_norm [OF d1 k1, of "\<lambda>draw. 0"]
      superposition_unit_norm [OF d0 k0, of "\<lambda>draw. 0"]
    by blast
qed


subsection \<open>The entanglement transform\<close>

lemma eye_diagonal: "eye n = diagonal_matrix n (\<lambda>i. 1)"
  by (simp add: eye_def diagonal_matrix_def)

lemma scale_diagonal_entry_diagonal:
  assumes "i < n"
  shows "scale_diagonal_entry (diagonal_matrix n d) i c = diagonal_matrix n (d(i := d i * c))"
proof (rule nth_equalityI)
  show "length (scale_diagonal_entry (diagonal_matrix n d) i c)
          = length (diagonal_matrix n (d(i := d i * c)))"
    by (simp add: scale_diagonal_entry_def diagonal_matrix_def)
next
  fix j
  assume "j < length (scale_diagonal_entry (diagonal_matrix n d) i c)"
  then have j: "j < n"
    by (simp add: scale_diagonal_entry_def diagonal_matrix_def)
  show "scale_diagonal_entry (diagonal_matrix n d) i c ! j
          = diagonal_matrix n (d(i := d i * c)) ! j"
    using assms j by (simp add: scale_diagonal_entry_def diagonal_matrix_def nth_list_update)
qed

lemma entangle_dance_diagonal:
  assumes "i < n"
  shows "\<exists>d'. entangle_dance emotions (i, dance) (diagonal_matrix n d) = diagonal_matrix n d'
              \<and> (\<forall>j. cmod (d' j) = cmod (d j))"
proof -
  let ?step = "\<lambda>(emotion, intensity) op.
             case map_of entanglement_matrix emotion of
               None \<Rightarrow> op
             | Some row \<Rightarrow>
                 (case map_of row dance of
                    None \<Rightarrow> op
                  | Some correlation \<Rightarrow>
                      (let angle = correlation * ENTANGLEMENT_STRENGTH * pi / 2
                       in scale_diagonal_entry op i (cis (angle * intensity))))"
  have "\<exists>d'. fold ?step emotions (diagonal_matrix n d) = diagonal_matrix n d'
              \<and> (\<forall>j. cmod (d' j) = cmod (d j))"
  proof (induction emotions arbitrary: d)
    case Nil
    then show ?case by auto
  next
    case (Cons entry emotions)
    obtain emotion intensity where entry: "entry = (emotion, intensity)" by (cases entry)
    have "\<exists>d1. ?step entry (diagonal_matrix n d) = diagonal_matrix n d1
                \<and> (\<forall>j. cmod (d1 j) = cmod (d j))"
    proof (cases "\<exists>row correlation. map_of entanglement_matrix emotion = Some row
                    \<and> map_of row dance = Some correlation")
      case True
      then obtain row correlation where "map_of entanglement_matrix emotion = Some row"
        and "map_of row dance = Some correlation" by blast
      then have "?step entry (diagonal_matrix n d) =
          diagonal_matrix n (d(i := d i * cis (correlation * ENTANGLEMENT_STRENGTH * pi / 2 * intensity)))"
        using assms by (simp add: entry Let_def scale_diagonal_entry_diagonal)
      moreover have "\<forall>j. cmod ((d(i := d i * cis (correlation * ENTANGLEMENT_STRENGTH * pi / 2 * intensity))) j)
                        = cmod (d j)"
        by (simp add: norm_mult)
      ultimately show ?thesis by blast
    next
      case False
      then have "?step entry (diagonal_matrix n d) = diagonal_matrix n d"
        by (auto simp: entry split: option.splits)
      then show ?thesis by auto
    qed
    then obtain d1 where d1: "?step entry (diagonal_matrix n d) = diagonal_matrix n d1"
      and m1: "\<forall>j. cmod (d1 j) = cmod (d j)" by blast
    from Cons.IH [of d1] obtain d' where
      "fold ?step emotions (diagonal_matrix n d1) = diagonal_matrix n d'"
      and "\<forall>j. cmod (d' j) = cmod (d1 j)" by blast
    with d1 m1 show ?case by auto
  qed
  then show ?thesis
    by (simp add: entangle_dance_def)
qed

lemma fold_entangle_dance_diagonal:
  assumes "\<forall>(i, dance) \<in> set dances. i < n"
  shows "\<exists>d'. fold (entangle_dance emotions) dances (diagonal_matrix n d) = diagonal_matrix n d'
              \<and> (\<forall>j. cmod (d' j) = cmod (d j))"
  using assms
proof (induction dances arbitrary: d)
  case Nil
  then show ?case by auto
next
  case (Cons entry dances)
  obtain i dance where entry: "entry = (i, dance)" by (cases entry)
  with Cons.prems have "i < n" by simp
  from entangle_dance_diagonal [OF this, of emotions dance d] obtain d1 where
    d1: "entangle_dance emotions (i, dance) (diagonal_matrix n d) = diagonal_matrix n d1"
    and m1: "\<forall>j. cmod (d1 j) = cmod (d j)" by blast
  from Cons.prems have "\<forall>(i, dance) \<in> set dances. i < n" by simp
  from Cons.IH [OF this, of d1] obtain d' where
    "fold (entangle_dance emotions) dances (diagonal_matrix n d1) = diagonal_matrix n d'"
    and "\<forall>j. cmod (d' j) = cmod (d1 j)" by blast
  with d1 m1 show ?case by (auto simp: entry)
qed

lemma entanglement_op_diagonal:
  "\<exists>d. entanglement_op emotions = diagonal_matrix QUANTUM_DIMENSIONS d \<and> (\<forall>j. cmod (d j) = 1)"
proof -
  let ?dances = "takeWhile (\<lambda>(i, dance). \<not> i \<ge> QUANTUM_DIMENSIONS) (enumerate 0 DANCE_STYLES)"
  have "\<forall>(i, dance) \<in> set ?dances. i < QUANTUM_DIMENSIONS"
    by (auto dest: set_takeWhileD)
  from fold_entangle_dance_diagonal [OF this, of emotions "\<lambda>i. 1"]
  show ?thesis
    by (simp add: entanglement_op_def eye_diagonal)
qed

lemma np_dot_unit_row:
  assumes "i < n" and "length v = n"
  shows "np_dot ((replicate n 0)[i := c]) v = c * v ! i"
proof -
  have "np_dot ((replicate n 0)[i := c]) v =
          (\<Sum>j = 0..<n. (map2 (*) ((replicate n 0)[i := c]) v) ! j)"
    using assms by (simp add: np_dot_def sum_list_sum_nth)
  also have "\<dots> = (\<Sum>j = 0..<n. (if j = i then c * v ! j else 0))"
    using assms by (intro sum.cong) (auto simp: nth_list_update)
  also have "\<dots> = c * v ! i"
    using assms by simp
  finally show ?thesis .
qed

lemma matvec_diagonal:
  assumes "length v = n"
  shows "matvec (diagonal_matrix n d) v = map (\<lambda>i. d i * v ! i) [0..<n]"
  using assms by (simp add: matvec_def diagonal_matrix_def np_dot_unit_row)

lemma linalg_norm_phases:
  assumes "length v = n" and "\<forall>j. cmod (d j) = 1"
  shows "linalg_norm (map (\<lambda>i. d i * v ! i) [0..<n]) = linalg_norm v"
proof -
  have "map (\<lambda>z. (cmod z)\<^sup>2) (map (\<lambda>i. d i * v ! i) [0..<n])
          = map (\<lambda>i. (cmod (v ! i))\<^sup>2) [0..<n]"
    using assms(2) by (simp add: norm_mult)
  also have "\<dots> = map (\<lambda>z. (cmod z)\<^sup>2) (map ((!) v) [0..<length v])"
    using assms(1) by simp
  also have "\<dots> = map (\<lambda>z. (cmod z)\<^sup>2) v"
    by (simp only: map_nth)
  finally show ?thesis
    by (simp add: linalg_norm_def)
qed


text \<open>
  Claim C3. For every state vector of the dimension of the space and every emotion
  distribution, the entangled state has the Euclidean norm of the state it was made
  from, in particular for the superposition state of the engine: the operator is
  diagonal and every diagonal entry has modulus \<open>1\<close>.
\<close>

theorem entanglement_preserves_norm:
  assumes "length quantum_state = QUANTUM_DIMENSIONS"
  shows "linalg_norm (apply_entanglement quantum_state emotions) = linalg_norm quantum_state
         \<and> length (apply_entanglement quantum_state emotions) = QUANTUM_DIMENSIONS
         \<and> (\<forall>i < QUANTUM_DIMENSIONS. \<forall>j < QUANTUM_DIMENSIONS.
                cmod (entanglement_op emotions ! i ! j) = (if i = j then 1 else 0))
         \<and> linalg_norm (apply_entanglement (create_superposition_state emotions rng) emotions)
             = linalg_norm (create_superposition_state emotions rng)"
proof -
  from entanglement_op_diagonal [of emotions] obtain d
    where op: "entanglement_op emotions = diagonal_matrix QUANTUM_DIMENSIONS d"
      and unit: "\<forall>j. cmod (d j) = 1"
    by blast
  have preserved: "linalg_norm (apply_entanglement v emotions) = linalg_norm v
                   \<and> length (apply_entanglement v emotions) = QUANTUM_DIMENSIONS"
    if "length v = QUANTUM_DIMENSIONS" for v
    using that unit
    by (simp add: apply_entanglement_def op matvec_diagonal linalg_norm_phases)
  have "\<forall>i < QUANTUM_DIMENSIONS. \<forall>j < QUANTUM_DIMENSIONS.
          cmod (entanglement_op emotions ! i ! j) = (if i = j then 1 else 0)"
    using unit by (simp add: op diagonal_matrix_def)
  with preserved [OF assms] preserved [OF length_create_superposition_state]
  show ?thesis by blast
qed

theorem entanglement_preserves_norm_witness:
  "length (replicate 16 (1::complex)) = QUANTUM_DIMENSIONS
   \<and> linalg_norm (apply_entanglement (replicate 16 1) [(''happy'', 1)])
       = linalg_norm (replicate 16 1)"
proof -
  have len: "length (replicate 16 (1::complex)) = QUANTUM_DIMENSIONS"
    by (simp add: QUANTUM_DIMENSIONS_def)
  from entanglement_preserves_norm [OF len, of "[(''happy'', 1)]"] len
  show ?thesis by blast
qed

subsection \<open>The measurement\<close>

lemma entanglement_matrix_nonneg:
  assumes "map_of entanglement_matrix e = Some row" and "map_of row d = Some c"
  shows "0 \<le> c"
proof -
  have "\<forall>(e, row) \<in> set entanglement_matrix. \<forall>(d, c) \<in> set row. 0 \<le> c"
    by (simp add: entanglement_matrix_def)
  moreover from assms have "(e, row) \<in> set entanglement_matrix" and "(d, c) \<in> set row"
    by (auto dest: map_of_SomeD)
  ultimately show ?thesis by blast
qed

lemma entanglement_boost_nonneg:
  fixes emotions :: "real dict"
  assumes "list_all (\<lambda>(e, p). 0 \<le> p) emotions"
  shows "0 \<le> entanglement_boost emotions dance"
proof -
  let ?step = "\<lambda>(emotion, intensity) boost.
             case map_of entanglement_matrix emotion of
               None \<Rightarrow> boost
             | Some row \<Rightarrow>
                 (case map_of row dance of
                    None \<Rightarrow> boost
                  | Some correlation \<Rightarrow> boost + intensity * correlation)"
  have "0 \<le> fold ?step emotions b" if "0 \<le> b" for b :: real
    using assms that
  proof (induction emotions arbitrary: b)
    case Nil
    then show ?case by simp
  next
    case (Cons entry emotions)
    obtain e p where entry: "entry = (e, p)" by (cases entry)
    with Cons.prems have p: "0 \<le> p" by simp
    have "0 \<le> ?step entry b"
      using p Cons.prems(2) entanglement_matrix_nonneg [of e _ dance]
      by (auto simp: entry split: option.splits)
    moreover from Cons.prems have "list_all (\<lambda>(e, p). 0 \<le> p) emotions" by simp
    ultimately have "0 \<le> fold ?step emotions (?step entry b)"
      by (intro Cons.IH)
    then show ?case by simp
  qed
  then show ?thesis
    by (simp add: entanglement_boost_def)
qed

lemma dance_weights_nonneg:
  fixes emotions :: "real dict"
  assumes "list_all (\<lambda>(e, p). 0 \<le> p) emotions"
  shows "list_all (\<lambda>(dance, w). 0 \<le> w) (dance_weights quantum_state emotions)"
  using entanglement_boost_nonneg [OF assms]
  by (auto simp: dance_weights_def Let_def list_all_iff)

lemma positive_total:
  fixes d :: "real dict"
  assumes "list_all (\<lambda>(k, v). 0 \<le> v) d" and "list_ex (\<lambda>(k, v). v \<noteq> 0) d"
  shows "0 < sum_list (vals d)"
proof -
  have nonneg: "\<And>x. x \<in> set (vals d) \<Longrightarrow> 0 \<le> x"
    using assms(1) by (auto simp: vals_def list_all_iff)
  from assms(2) have "\<not> (\<forall>x \<in> set (vals d). x = 0)"
    by (force simp: vals_def list_ex_iff)
  then have "sum_list (vals d) \<noteq> 0"
    using sum_list_nonneg_eq_0_iff [of "vals d"] nonneg by blast
  moreover have "0 \<le> sum_list (vals d)"
    using nonneg by (rule sum_list_nonneg)
  ultimately show ?thesis by simp
qed

lemma quantum_measurement_kept:
  assumes "r \<in> set (quantum_measurement fmt quantum_state emotions)"
  shows "SUPERPOSITION_THRESHOLD < score r
         \<and> (dance_style r, score r) \<in> set (dance_probabilities quantum_state emotions)"
proof -
  from assms obtain dance probability
    where kept: "(dance, probability) \<in> set (take TOP_K_RECOMMENDATIONS
                   (sorted_desc (dance_probabilities quantum_state emotions)))"
      and above: "SUPERPOSITION_THRESHOLD < probability"
      and r: "dance_style r = dance" "score r = probability"
    by (auto simp: quantum_measurement_def)
  from kept have "(dance, probability) \<in> set (sorted_desc (dance_probabilities quantum_state emotions))"
    by (rule in_set_takeD)
  then have "(dance, probability) \<in> set (dance_probabilities quantum_state emotions)"
    by (simp add: sorted_desc_def)
  with above r show ?thesis by simp
qed

lemma dance_basis_table:
  "dance_basis = map (\<lambda>(i, name). (name, (replicate 16 0)[i := 1]))
     [(0, ''Ballet''), (1, ''Hip-Hop''), (2, ''Contemporary''), (3, ''Jazz''), (4, ''Salsa''),
      (5, ''Breakdance''), (6, ''Ballroom''), (7, ''Tap''), (8, ''Lyrical''), (9, ''Freestyle'')]"
  by (simp add: dance_basis_def create_basis_def DANCE_STYLES_def basis_vector_def
      QUANTUM_DIMENSIONS_def Let_def eval_nat_numeral)


text \<open>
  Claim C5. For every emotion distribution without negative values and every state that
  is measured (so for the entangled state of every choice of phases): if some
  unnormalised dance weight is not \<open>0\<close>, the normalised weights sum to \<open>1\<close>; and every
  recommendation of the output carries the normalised weight of its dance, which exceeds
  the superposition threshold \<open>0.1\<close>.
\<close>

theorem quantum_weights_normalized:
  fixes emotions :: "real dict"
  assumes "list_all (\<lambda>(e, p). 0 \<le> p) emotions"
  shows "(list_ex (\<lambda>(dance, w). w \<noteq> 0) (dance_weights quantum_state emotions) \<longrightarrow>
            sum_list (vals (dance_probabilities quantum_state emotions)) = 1)
         \<and> (\<forall>r \<in> set (quantum_measurement fmt quantum_state emotions).
               SUPERPOSITION_THRESHOLD < score r
               \<and> (dance_style r, score r) \<in> set (dance_probabilities quantum_state emotions))
         \<and> SUPERPOSITION_THRESHOLD = 1/10
         \<and> recommendations (quantum_recommend fmt emotions rng) =
             quantum_measurement fmt
               (apply_entanglement (create_superposition_state emotions rng) emotions) emotions"
proof -
  have "sum_list (vals (dance_probabilities quantum_state emotions)) = 1"
    if "list_ex (\<lambda>(dance, w). w \<noteq> 0) (dance_weights quantum_state emotions)"
    unfolding dance_probabilities_def
    using dance_weights_nonneg [OF assms] that
    by (intro normalize_sum_one positive_total)
  moreover have "recommendations (quantum_recommend fmt emotions rng) =
             quantum_measurement fmt
               (apply_entanglement (create_superposition_state emotions rng) emotions) emotions"
    by (simp add: quantum_recommend_def Let_def)
  ultimately show ?thesis
    using quantum_measurement_kept [of _ fmt quantum_state emotions]
    by (simp add: SUPERPOSITION_THRESHOLD_def)
qed

theorem quantum_weights_normalized_witness:
  "list_all (\<lambda>(e, p). 0 \<le> p) [(''happy'', 1::real)]
   \<and> dance_weights ((replicate 16 0)[1 := 1]) [(''happy'', 1)] =
       [(''Ballet'', 0), (''Hip-Hop'', 19/10), (''Contemporary'', 0), (''Jazz'', 0),
        (''Salsa'', 0), (''Breakdance'', 0), (''Ballroom'', 0), (''Tap'', 0),
        (''Lyrical'', 0), (''Freestyle'', 0)]
   \<and> sum_list (vals (dance_probabilities ((replicate 16 0)[1 := 1]) [(''happy'', 1)])) = 1
   \<and> map dance_style (quantum_measurement (\<lambda>p. []) ((replicate 16 0)[1 := 1]) [(''happy'', 1)])
       = [''Hip-Hop'']
   \<and> (\<exists>r. r \<in> set (quantum_measurement (\<lambda>p. []) ((replicate 16 0)[1 := 1]) [(''happy'', 1)])
           \<and> SUPERPOSITION_THRESHOLD < score r)"
proof -
  let ?state = "(replicate 16 0)[1 := 1::complex]"
  let ?emotions = "[(''happy'', 1::real)]"
  have nonneg: "list_all (\<lambda>(e, p). 0 \<le> p) ?emotions"
    by simp
  have weights: "dance_weights ?state ?emotions =
       [(''Ballet'', 0), (''Hip-Hop'', 19/10), (''Contemporary'', 0), (''Jazz'', 0),
        (''Salsa'', 0), (''Breakdance'', 0), (''Ballroom'', 0), (''Tap'', 0),
        (''Lyrical'', 0), (''Freestyle'', 0)]"
    unfolding dance_weights_def dance_basis_table
    by (simp add: DANCE_STYLES_def QUANTUM_DIMENSIONS_def entanglement_boost_def
        entanglement_matrix_def np_dot_def Let_def eval_nat_numeral)
  have nonzero: "list_ex (\<lambda>(dance, w). w \<noteq> 0) (dance_weights ?state ?emotions)"
    unfolding weights by simp
  have recs: "map dance_style (quantum_measurement (\<lambda>p. []) ?state ?emotions) = [''Hip-Hop'']"
    unfolding quantum_measurement_def dance_probabilities_def weights
    by (simp add: normalize_if_positive_def vals_def sorted_desc_def TOP_K_RECOMMENDATIONS_def
        SUPERPOSITION_THRESHOLD_def Let_def)
  then have "quantum_measurement (\<lambda>p. []) ?state ?emotions \<noteq> []"
    by auto
  then obtain r where r: "r \<in> set (quantum_measurement (\<lambda>p. []) ?state ?emotions)"
    by (cases "quantum_measurement (\<lambda>p. []) ?state ?emotions") auto
  from quantum_weights_normalized [OF nonneg, of ?state "\<lambda>p. []" "\<lambda>draw. 0"] nonzero r
  have "sum_list (vals (dance_probabilities ?state ?emotions)) = 1"
    and "SUPERPOSITION_THRESHOLD < score r"
    by blast+
  with nonneg weights recs r show ?thesis
    by blast
qed


subsection \<open>Two runs\<close>

lemma draws_has_key:
  "has_key emotion_basis e \<longleftrightarrow> map_of emotion_basis e \<noteq> None"
  by (simp add: has_key_def keys_def map_of_eq_None_iff)

lemma superposition_fold_draws:
  "snd (fold (superposition_step rng) emotions (s, k))
     = k + length (filter (\<lambda>(e, p). has_key emotion_basis e) emotions)"
proof (induction emotions arbitrary: s k)
  case Nil
  then show ?case by simp
next
  case (Cons entry emotions)
  obtain e p where entry: "entry = (e, p)" by (cases entry)
  show ?case
  proof (cases "map_of emotion_basis e")
    case None
    then have "superposition_step rng entry (s, k) = (s, k)"
      by (simp add: superposition_step_def entry)
    moreover from None have "\<not> has_key emotion_basis e"
      by (simp add: draws_has_key)
    ultimately show ?thesis
      by (simp add: entry Cons.IH)
  next
    case (Some b)
    then obtain s' where "superposition_step rng entry (s, k) = (s', Suc k)"
      by (simp add: superposition_step_def entry Let_def)
    moreover from Some have "has_key emotion_basis e"
      by (simp add: draws_has_key)
    ultimately show ?thesis
      by (simp add: entry Cons.IH)
  qed
qed

lemma superposition_fold_same_draws:
  assumes "\<forall>j. k \<le> j \<and> j < k + length (filter (\<lambda>(e, p). has_key emotion_basis e) emotions)
             \<longrightarrow> rng' j = rng j"
  shows "fold (superposition_step rng') emotions (s, k)
           = fold (superposition_step rng) emotions (s, k)"
  using assms
proof (induction emotions arbitrary: s k)
  case Nil
  then show ?case by simp
next
  case (Cons entry emotions)
  obtain e p where entry: "entry = (e, p)" by (cases entry)
  show ?case
  proof (cases "map_of emotion_basis e")
    case None
    then have "superposition_step rng' entry (s, k) = (s, k)"
      and "superposition_step rng entry (s, k) = (s, k)"
      by (simp_all add: superposition_step_def entry)
    moreover from None Cons.prems
    have "\<forall>j. k \<le> j \<and> j < k + length (filter (\<lambda>(e, p). has_key emotion_basis e) emotions)
             \<longrightarrow> rng' j = rng j"
      by (simp add: entry draws_has_key)
    ultimately show ?thesis
      using Cons.IH by simp
  next
    case (Some b)
    with Cons.prems have "rng' k = rng k"
      by (simp add: entry draws_has_key)
    with Some have same: "superposition_step rng' entry (s, k) = superposition_step rng entry (s, k)"
      by (simp add: superposition_step_def entry Let_def)
    from Some have next_state: "snd (superposition_step rng entry (s, k)) = Suc k"
      by (simp add: superposition_step_def entry Let_def)
    from Some Cons.prems
    have "\<forall>j. Suc k \<le> j \<and> j < Suc k + length (filter (\<lambda>(e, p). has_key emotion_basis e) emotions)
             \<longrightarrow> rng' j = rng j"
      by (simp add: entry draws_has_key)
    from Cons.IH [OF this] same next_state show ?thesis
      by (cases "superposition_step rng entry (s, k)") simp
  qed
qed

lemma dict_eq_sum:
  fixes f :: "string \<times> real \<Rightarrow> real"
  assumes "dict_eq d d'"
  shows "sum_list (map f d) = sum_list (map f d')"
proof -
  from assms have "distinct d" and "distinct d'" and "set d = set d'"
    by (auto simp: dict_eq_def keys_def distinct_map)
  then show ?thesis
    by (simp add: sum_list_distinct_conv_sum_set)
qed

lemma dance_scores_of_dict_eq:
  assumes "dict_eq emotions emotions'"
  shows "dance_scores_of emotions = dance_scores_of emotions'"
  by (simp add: dance_scores_of_eq dict_eq_sum [OF assms])

lemma classical_numbers:
  "map (\<lambda>r. (dance_style r, score r, confidence r)) (classical_recommendations emotions) =
     map (\<lambda>(dance, s). (dance, s, min 1 s))
       (filter (\<lambda>(dance, s). s > 0)
          (take TOP_K_RECOMMENDATIONS (sorted_desc (dance_scores_of emotions))))"
  by (simp add: classical_recommendations_def comp_def case_prod_beta)

lemma calculate_diversity_scores:
  "calculate_diversity recs =
     (if length (map score recs) < 2 then 0 else np_std (map score recs))"
  by (simp add: calculate_diversity_def)

lemma classical_dict_eq:
  assumes "dict_eq emotions emotions'"
  shows "map (\<lambda>r. (dance_style r, score r, confidence r))
           (recommendations (classical_recommend emotions'))
         = map (\<lambda>r. (dance_style r, score r, confidence r))
             (recommendations (classical_recommend emotions))"
    and "diversity_score (classical_recommend emotions')
         = diversity_score (classical_recommend emotions)"
proof -
  have numbers: "map (\<lambda>r. (dance_style r, score r, confidence r)) (classical_recommendations emotions')
         = map (\<lambda>r. (dance_style r, score r, confidence r)) (classical_recommendations emotions)"
    by (simp only: classical_numbers dance_scores_of_dict_eq [OF assms])
  then have "map (fst \<circ> snd) (map (\<lambda>r. (dance_style r, score r, confidence r)) (classical_recommendations emotions'))
         = map (fst \<circ> snd) (map (\<lambda>r. (dance_style r, score r, confidence r)) (classical_recommendations emotions))"
    by (rule arg_cong)
  then have "map score (classical_recommendations emotions')
               = map score (classical_recommendations emotions)"
    by (simp add: comp_def)
  then have "calculate_diversity (classical_recommendations emotions')
               = calculate_diversity (classical_recommendations emotions)"
    by (simp only: calculate_diversity_scores)
  with numbers show "map (\<lambda>r. (dance_style r, score r, confidence r))
           (recommendations (classical_recommend emotions'))
         = map (\<lambda>r. (dance_style r, score r, confidence r))
             (recommendations (classical_recommend emotions))"
    and "diversity_score (classical_recommend emotions')
         = diversity_score (classical_recommend emotions)"
    by (simp_all add: classical_recommend_def Let_def)
qed

lemma reorder_reasoning:
  "map reasoning (recommendations (classical_recommend [(''sad'', 1/2), (''melancholic'', 1/2)]))
     = [''Strong sad emotion detected, which aligns well with Contemporary'',
        ''Strong sad emotion detected, which aligns well with Lyrical'',
        ''Strong sad emotion detected, which aligns well with Ballet'']"
  "map reasoning (recommendations (classical_recommend [(''melancholic'', 1/2), (''sad'', 1/2)]))
     = [''Strong melancholic emotion detected, which aligns well with Contemporary'',
        ''Strong melancholic emotion detected, which aligns well with Lyrical'',
        ''Strong melancholic emotion detected, which aligns well with Ballet'']"
  by (simp_all add: classical_recommend_def classical_recommendations_def
      dance_scores_of_def accumulate_scores_def emotion_dance_matrix_def add_row_def has_key_def
      keys_def dict_add_def DANCE_STYLES_def sorted_desc_def TOP_K_RECOMMENDATIONS_def
      generate_reasoning_def contributions_def Let_def)


lemma distinct_emotion_names: "distinct (FACIAL_EMOTIONS @ MOVEMENT_EMOTIONS)"
  by (simp add: FACIAL_EMOTIONS_def MOVEMENT_EMOTIONS_def)

lemma superposition_fold_slots:
  fixes emotions :: "real dict"
  assumes "distinct (keys emotions)" and "list_all (\<lambda>(e, p). 0 \<le> p) emotions"
    and "set (keys emotions) \<subseteq> set (FACIAL_EMOTIONS @ MOVEMENT_EMOTIONS)"
    and "length s = QUANTUM_DIMENSIONS"
    and "\<forall>e \<in> set (keys emotions). \<forall>i < length (FACIAL_EMOTIONS @ MOVEMENT_EMOTIONS).
           (FACIAL_EMOTIONS @ MOVEMENT_EMOTIONS) ! i = e \<longrightarrow> s ! i = 0"
    and "j < QUANTUM_DIMENSIONS"
  shows "(cmod (fst (fold (superposition_step rng) emotions (s, k)) ! j))\<^sup>2
           = (cmod (s ! j))\<^sup>2 + slot_probability emotions j"
  using assms
proof (induction emotions arbitrary: s k)
  case Nil
  then show ?case by (simp add: slot_probability_def)
next
  case (Cons entry emotions)
  let ?names = "FACIAL_EMOTIONS @ MOVEMENT_EMOTIONS"
  obtain e p where entry: "entry = (e, p)" by (cases entry)
  from Cons.prems(3) have "e \<in> set ?names" by (simp add: entry keys_def)
  from emotion_basis_lookup [OF this] obtain i where i: "i < length ?names"
    and name: "?names ! i = e"
    and basis: "map_of emotion_basis e = Some ((replicate QUANTUM_DIMENSIONS 0)[i := 1])"
    by blast
  from i have i16: "i < QUANTUM_DIMENSIONS"
    by (simp add: FACIAL_EMOTIONS_def MOVEMENT_EMOTIONS_def QUANTUM_DIMENSIONS_def)
  from Cons.prems(5) i name have empty: "s ! i = 0" by (simp add: entry keys_def)
  from Cons.prems(2) have p: "0 \<le> p" by (simp add: entry)
  let ?s = "s[i := complex_of_real (sqrt p) * cis (rng k)]"
  have step: "superposition_step rng entry (s, k) = (?s, Suc k)"
    using superposition_step_known [OF i basis Cons.prems(4), of rng p k] empty
    by (simp add: entry)
  have here: "(j < length ?names \<and> ?names ! j = e) \<longleftrightarrow> j = i"
    using i name distinct_emotion_names by (auto simp: nth_eq_iff_index_eq)
  have slot: "(cmod (?s ! j))\<^sup>2 = (cmod (s ! j))\<^sup>2 + (if j = i then p else 0)"
    using i16 Cons.prems(4) empty p by (simp add: nth_list_update norm_mult)
  have "distinct (keys emotions)" and "list_all (\<lambda>(e, p). 0 \<le> p) emotions"
    and "set (keys emotions) \<subseteq> set ?names" and "length ?s = QUANTUM_DIMENSIONS"
    using Cons.prems by (simp_all add: keys_def)
  moreover have "\<forall>e' \<in> set (keys emotions). \<forall>j < length ?names. ?names ! j = e' \<longrightarrow> ?s ! j = 0"
  proof (intro ballI allI impI)
    fix e' j'
    assume e': "e' \<in> set (keys emotions)" and j': "j' < length ?names" and "?names ! j' = e'"
    from Cons.prems(1) e' have "e' \<noteq> e" by (auto simp: entry keys_def)
    with \<open>?names ! j' = e'\<close> name have "j' \<noteq> i" by auto
    moreover from Cons.prems(5) e' j' \<open>?names ! j' = e'\<close> have "s ! j' = 0"
      by (auto simp: keys_def)
    ultimately show "?s ! j' = 0" by simp
  qed
  ultimately have "(cmod (fst (fold (superposition_step rng) emotions (?s, Suc k)) ! j))\<^sup>2
           = (cmod (?s ! j))\<^sup>2 + slot_probability emotions j"
    using Cons.prems(6) by (intro Cons.IH)
  moreover have "slot_probability (entry # emotions) j
                   = (if j = i then p else 0) + slot_probability emotions j"
    using here by (simp add: slot_probability_def entry)
  ultimately show ?case
    using step slot by simp
qed

lemma superposition_state_slots:
  fixes emotions :: "real dict"
  assumes "distribution_like emotions"
    and "set (keys emotions) \<subseteq> set (FACIAL_EMOTIONS @ MOVEMENT_EMOTIONS)"
    and "j < QUANTUM_DIMENSIONS"
  shows "(cmod (create_superposition_state emotions rng ! j))\<^sup>2
           = slot_probability emotions j
             / (if 0 < sum_list (vals emotions) then sum_list (vals emotions) else 1)"
proof -
  let ?raw = "fst (superposition_raw emotions rng)"
  let ?total = "sum_list (vals emotions)"
  note raw = superposition_raw_norm [OF assms(1,2), of rng]
  have "(cmod (fst (fold (superposition_step rng) emotions (replicate QUANTUM_DIMENSIONS 0, 0)) ! j))\<^sup>2
          = (cmod (replicate QUANTUM_DIMENSIONS 0 ! j))\<^sup>2 + slot_probability emotions j"
    using assms
    by (intro superposition_fold_slots)
      (simp_all add: distribution_like_def FACIAL_EMOTIONS_def MOVEMENT_EMOTIONS_def
        QUANTUM_DIMENSIONS_def)
  then have slots: "(cmod (?raw ! j))\<^sup>2 = slot_probability emotions j"
    using assms(3) by (simp add: superposition_raw_def)
  show ?thesis
  proof (cases "0 < ?total")
    case True
    with raw(1) have norm: "0 < linalg_norm ?raw" and sq: "(linalg_norm ?raw)\<^sup>2 = ?total"
      by (simp_all add: linalg_norm_squared_norm)
    from norm have "create_superposition_state emotions rng =
                 map (\<lambda>z. z / complex_of_real (linalg_norm ?raw)) ?raw"
      by (simp add: create_superposition_state_def Let_def)
    then have "create_superposition_state emotions rng ! j
                 = ?raw ! j / complex_of_real (linalg_norm ?raw)"
      using assms(3) raw(2) by simp
    then have "(cmod (create_superposition_state emotions rng ! j))\<^sup>2
                 = (cmod (?raw ! j))\<^sup>2 / (linalg_norm ?raw)\<^sup>2"
      by (simp add: norm_divide power_divide)
    with True slots sq show ?thesis by simp
  next
    case False
    have "0 \<le> squared_norm ?raw"
      unfolding squared_norm_def by (rule sum_list_nonneg) auto
    with False raw(1) have "?total = 0" by simp
    with raw(1) have "linalg_norm ?raw = 0"
      by (simp add: linalg_norm_squared_norm)
    then have "create_superposition_state emotions rng = ?raw"
      by (simp add: create_superposition_state_def Let_def)
    with False slots show ?thesis by simp
  qed
qed

lemma entangled_modulus:
  assumes "length st = QUANTUM_DIMENSIONS" and "j < QUANTUM_DIMENSIONS"
  shows "cmod (apply_entanglement st emotions ! j) = cmod (st ! j)"
proof -
  from entanglement_op_diagonal [of emotions] obtain d
    where op: "entanglement_op emotions = diagonal_matrix QUANTUM_DIMENSIONS d"
      and unit: "\<forall>j. cmod (d j) = 1"
    by blast
  have "apply_entanglement st emotions = map (\<lambda>i. d i * st ! i) [0..<QUANTUM_DIMENSIONS]"
    using assms(1) by (simp add: apply_entanglement_def op matvec_diagonal)
  then show ?thesis
    using assms(2) unit by (simp add: norm_mult)
qed

lemma create_basis_nth:
  assumes "distinct names" and "i < length names"
  shows "map_of (create_basis names) (names ! i) = Some (basis_vector i)"
proof -
  from assms(2) have "names ! i \<in> set names" by simp
  from create_basis_defined [OF this] obtain b
    where b: "map_of (create_basis names) (names ! i) = Some b" by blast
  from create_basis_lookup [OF b] obtain i'
    where "i' < length names" and "names ! i' = names ! i" and bv: "b = basis_vector i'"
    by blast
  with assms have "i' = i" by (simp add: nth_eq_iff_index_eq)
  with b bv show ?thesis by simp
qed

lemma projection_unit:
  assumes "i < QUANTUM_DIMENSIONS" and "length st = QUANTUM_DIMENSIONS"
  shows "np_dot (map cnj (basis_vector i)) st = st ! i"
proof -
  have "map cnj (basis_vector i) = (replicate QUANTUM_DIMENSIONS 0)[i := 1]"
    using assms(1) by (simp add: basis_vector_def Let_def map_update)
  then show ?thesis
    using assms by (simp add: np_dot_unit_row)
qed

lemma dance_weights_closed:
  assumes "length st = QUANTUM_DIMENSIONS"
  shows "dance_weights st emotions =
           map (\<lambda>(i, dance). (dance, (cmod (st ! i))\<^sup>2 * (1 + entanglement_boost emotions dance)))
               (enumerate 0 DANCE_STYLES)"
proof -
  have distinct_styles: "distinct DANCE_STYLES"
    by (simp add: DANCE_STYLES_def)
  have below: "i < QUANTUM_DIMENSIONS" if "i < length DANCE_STYLES" for i
    using that by (simp add: DANCE_STYLES_def QUANTUM_DIMENSIONS_def)
  have all: "filter (\<lambda>(i, dance). i < QUANTUM_DIMENSIONS) (enumerate 0 DANCE_STYLES)
               = enumerate 0 DANCE_STYLES"
    by (rule filter_True) (auto simp: in_set_enumerate_eq below)
  have "(cmod (np_dot (map cnj (the (map_of dance_basis dance))) st))\<^sup>2 = (cmod (st ! i))\<^sup>2"
    if "(i, dance) \<in> set (enumerate 0 DANCE_STYLES)" for i dance
  proof -
    from that have i: "i < length DANCE_STYLES" and "DANCE_STYLES ! i = dance"
      by (auto simp: in_set_enumerate_eq)
    with distinct_styles have "map_of dance_basis dance = Some (basis_vector i)"
      using create_basis_nth [of DANCE_STYLES i] by (simp add: dance_basis_def)
    then show ?thesis
      using projection_unit [OF below [OF i] assms] by simp
  qed
  then show ?thesis
    unfolding dance_weights_def all by (auto simp: Let_def)
qed

lemma entanglement_boost_sum:
  "entanglement_boost emotions dance
     = sum_list (map (\<lambda>(e, p). p * correlation_of e dance) emotions)"
proof -
  let ?step = "\<lambda>(emotion, intensity) boost.
             case map_of entanglement_matrix emotion of
               None \<Rightarrow> boost
             | Some row \<Rightarrow>
                 (case map_of row dance of
                    None \<Rightarrow> boost
                  | Some correlation \<Rightarrow> boost + intensity * correlation)"
  have "fold ?step emotions b = b + sum_list (map (\<lambda>(e, p). p * correlation_of e dance) emotions)"
    for b :: real
  proof (induction emotions arbitrary: b)
    case Nil
    then show ?case by simp
  next
    case (Cons entry emotions)
    obtain e p where entry: "entry = (e, p)" by (cases entry)
    have "?step entry b = b + p * correlation_of e dance"
      by (simp add: entry correlation_of_def split: option.splits)
    then show ?case
      by (simp add: Cons.IH entry)
  qed
  from this [of 0] show ?thesis
    by (simp add: entanglement_boost_def)
qed

lemma engine_weights_closed:
  fixes emotions :: "real dict"
  assumes "distribution_like emotions"
    and "set (keys emotions) \<subseteq> set (FACIAL_EMOTIONS @ MOVEMENT_EMOTIONS)"
  shows "dance_weights (apply_entanglement (create_superposition_state emotions rng) emotions) emotions
           = map (\<lambda>(i, dance).
                    (dance, slot_probability emotions i
                            / (if 0 < sum_list (map snd emotions) then sum_list (map snd emotions) else 1)
                            * (1 + sum_list (map (\<lambda>(e, p). p * correlation_of e dance) emotions))))
                 (enumerate 0 DANCE_STYLES)"
proof -
  let ?state = "create_superposition_state emotions rng"
  let ?entangled = "apply_entanglement ?state emotions"
  have len_state: "length ?state = QUANTUM_DIMENSIONS"
    by (rule length_create_superposition_state)
  from entanglement_op_diagonal [of emotions] obtain d
    where "entanglement_op emotions = diagonal_matrix QUANTUM_DIMENSIONS d" by blast
  then have len: "length ?entangled = QUANTUM_DIMENSIONS"
    by (simp add: apply_entanglement_def matvec_def diagonal_matrix_def)
  have "(cmod (?entangled ! i))\<^sup>2
          = slot_probability emotions i
            / (if 0 < sum_list (map snd emotions) then sum_list (map snd emotions) else 1)"
    if "(i, dance) \<in> set (enumerate 0 DANCE_STYLES)" for i dance
  proof -
    from that have "i < length DANCE_STYLES"
      by (auto simp: in_set_enumerate_eq)
    then have i: "i < QUANTUM_DIMENSIONS"
      by (simp add: DANCE_STYLES_def QUANTUM_DIMENSIONS_def)
    from entangled_modulus [OF len_state i, of emotions]
      superposition_state_slots [OF assms i, of rng]
    show ?thesis by (simp add: vals_def)
  qed
  then show ?thesis
    unfolding dance_weights_closed [OF len] entanglement_boost_sum
    by (auto simp: case_prod_beta)
qed


lemma dict_eq_valid:
  assumes "dict_eq emotions emotions'" and "list_all (\<lambda>(e, p). 0 \<le> p) emotions"
    and "set (keys emotions) \<subseteq> set (FACIAL_EMOTIONS @ MOVEMENT_EMOTIONS)"
  shows "distribution_like emotions" and "distribution_like emotions'"
    and "set (keys emotions') \<subseteq> set (FACIAL_EMOTIONS @ MOVEMENT_EMOTIONS)"
proof -
  from assms(1) have same: "set emotions' = set emotions"
    and "distinct (keys emotions)" and "distinct (keys emotions')"
    by (simp_all add: dict_eq_def)
  moreover from assms(2) same have "list_all (\<lambda>(e, p). 0 \<le> p) emotions'"
    by (simp add: list_all_iff)
  moreover from same have "set (keys emotions') = set (keys emotions)"
    by (simp add: keys_def)
  ultimately show "distribution_like emotions" and "distribution_like emotions'"
    and "set (keys emotions') \<subseteq> set (FACIAL_EMOTIONS @ MOVEMENT_EMOTIONS)"
    using assms(2,3) by (simp_all add: distribution_like_def)
qed

lemma engine_weights_dict_eq:
  assumes "dict_eq emotions emotions'" and "list_all (\<lambda>(e, p). 0 \<le> p) emotions"
    and "set (keys emotions) \<subseteq> set (FACIAL_EMOTIONS @ MOVEMENT_EMOTIONS)"
  shows "dance_weights (apply_entanglement (create_superposition_state emotions' rng') emotions') emotions'
         = dance_weights (apply_entanglement (create_superposition_state emotions rng) emotions) emotions"
proof -
  note valid = dict_eq_valid [OF assms]
  show ?thesis
    unfolding engine_weights_closed [OF valid(1) assms(3)]
      engine_weights_closed [OF valid(2) valid(3)]
    by (simp add: slot_probability_def dict_eq_sum [OF assms(1)])
qed

lemma quantum_numbers:
  "map (\<lambda>r. (dance_style r, score r, confidence r, quantum_amplitude r))
       (quantum_measurement fmt quantum_state emotions) =
     map (\<lambda>(dance, probability). (dance, probability, probability, probability))
       (filter (\<lambda>(dance, probability). probability > SUPERPOSITION_THRESHOLD)
          (take TOP_K_RECOMMENDATIONS (sorted_desc (dance_weights_normalized))))"
  if "dance_weights_normalized = dance_probabilities quantum_state emotions"
  using that by (simp add: quantum_measurement_def comp_def case_prod_beta)

lemma state_probabilities_closed:
  fixes emotions :: "real dict"
  assumes "distribution_like emotions"
    and "set (keys emotions) \<subseteq> set (FACIAL_EMOTIONS @ MOVEMENT_EMOTIONS)"
  shows "map (\<lambda>a. (cmod a)\<^sup>2) (create_superposition_state emotions rng)
           = map (\<lambda>j. slot_probability emotions j
                       / (if 0 < sum_list (map snd emotions) then sum_list (map snd emotions) else 1))
                 [0..<QUANTUM_DIMENSIONS]"
proof (rule nth_equalityI)
  show "length (map (\<lambda>a. (cmod a)\<^sup>2) (create_superposition_state emotions rng))
          = length (map (\<lambda>j. slot_probability emotions j
                       / (if 0 < sum_list (map snd emotions) then sum_list (map snd emotions) else 1))
                 [0..<QUANTUM_DIMENSIONS])"
    by (simp add: length_create_superposition_state)
next
  fix j
  assume "j < length (map (\<lambda>a. (cmod a)\<^sup>2) (create_superposition_state emotions rng))"
  then have j: "j < QUANTUM_DIMENSIONS"
    by (simp add: length_create_superposition_state)
  then show "map (\<lambda>a. (cmod a)\<^sup>2) (create_superposition_state emotions rng) ! j
          = map (\<lambda>j. slot_probability emotions j
                       / (if 0 < sum_list (map snd emotions) then sum_list (map snd emotions) else 1))
                 [0..<QUANTUM_DIMENSIONS] ! j"
    using superposition_state_slots [OF assms j, of rng]
    by (simp add: length_create_superposition_state vals_def)
qed

lemma quantum_dict_eq:
  assumes "dict_eq emotions emotions'" and "list_all (\<lambda>(e, p). 0 \<le> p) emotions"
    and "set (keys emotions) \<subseteq> set (FACIAL_EMOTIONS @ MOVEMENT_EMOTIONS)"
  shows "map (\<lambda>r. (dance_style r, score r, confidence r, quantum_amplitude r))
            (recommendations (quantum_recommend fmt emotions' rng'))
         = map (\<lambda>r. (dance_style r, score r, confidence r, quantum_amplitude r))
            (recommendations (quantum_recommend fmt emotions rng))"
    and "superposition_entropy (quantum_properties (quantum_recommend fmt emotions' rng'))
         = superposition_entropy (quantum_properties (quantum_recommend fmt emotions rng))"
    and "entanglement_strength (quantum_properties (quantum_recommend fmt emotions' rng'))
         = entanglement_strength (quantum_properties (quantum_recommend fmt emotions rng))"
proof -
  note valid = dict_eq_valid [OF assms]
  have "dance_probabilities (apply_entanglement (create_superposition_state emotions' rng') emotions') emotions'
        = dance_probabilities (apply_entanglement (create_superposition_state emotions rng) emotions) emotions"
    by (simp only: dance_probabilities_def engine_weights_dict_eq [OF assms, of rng' rng])
  then show "map (\<lambda>r. (dance_style r, score r, confidence r, quantum_amplitude r))
            (recommendations (quantum_recommend fmt emotions' rng'))
         = map (\<lambda>r. (dance_style r, score r, confidence r, quantum_amplitude r))
            (recommendations (quantum_recommend fmt emotions rng))"
    by (simp add: quantum_recommend_def Let_def quantum_numbers)
  have "map (\<lambda>a. (cmod a)\<^sup>2) (create_superposition_state emotions' rng')
        = map (\<lambda>a. (cmod a)\<^sup>2) (create_superposition_state emotions rng)"
    unfolding state_probabilities_closed [OF valid(1) assms(3)]
      state_probabilities_closed [OF valid(2) valid(3)]
    by (simp add: slot_probability_def dict_eq_sum [OF assms(1)])
  then show "superposition_entropy (quantum_properties (quantum_recommend fmt emotions' rng'))
         = superposition_entropy (quantum_properties (quantum_recommend fmt emotions rng))"
    by (simp add: quantum_recommend_def Let_def)
  show "entanglement_strength (quantum_properties (quantum_recommend fmt emotions' rng'))
         = entanglement_strength (quantum_properties (quantum_recommend fmt emotions rng))"
    by (simp add: quantum_recommend_def Let_def)
qed


text \<open>
  Claim C9, as stated, fails: two distributions that are equal as dicts, with their
  entries inserted in another order, get different recommendation sets from the
  deterministic engine. Where two emotions contribute equally to a style, the reasoning
  names the one that the dict lists first.
\<close>

theorem reordered_distribution_counterexample:
  "dict_eq [(''sad'', 1/2), (''melancholic'', 1/2)] [(''melancholic'', 1/2), (''sad'', 1/2)]
   \<and> map reasoning (recommendations (classical_recommend [(''sad'', 1/2), (''melancholic'', 1/2)]))
     = [''Strong sad emotion detected, which aligns well with Contemporary'',
        ''Strong sad emotion detected, which aligns well with Lyrical'',
        ''Strong sad emotion detected, which aligns well with Ballet'']
   \<and> map reasoning (recommendations (classical_recommend [(''melancholic'', 1/2), (''sad'', 1/2)]))
     = [''Strong melancholic emotion detected, which aligns well with Contemporary'',
        ''Strong melancholic emotion detected, which aligns well with Lyrical'',
        ''Strong melancholic emotion detected, which aligns well with Ballet'']
   \<and> classical_recommend [(''melancholic'', 1/2), (''sad'', 1/2)]
       \<noteq> classical_recommend [(''sad'', 1/2), (''melancholic'', 1/2)]"
proof -
  have equal: "dict_eq [(''sad'', 1/2), (''melancholic'', 1/2)] [(''melancholic'', 1/2), (''sad'', 1/2)]"
    by (auto simp: dict_eq_def keys_def)
  have "classical_recommend [(''melancholic'', 1/2), (''sad'', 1/2)]
       \<noteq> classical_recommend [(''sad'', 1/2), (''melancholic'', 1/2)]"
  proof
    assume "classical_recommend [(''melancholic'', 1/2), (''sad'', 1/2)]
              = classical_recommend [(''sad'', 1/2), (''melancholic'', 1/2)]"
    then have "map reasoning (recommendations (classical_recommend [(''melancholic'', 1/2), (''sad'', 1/2)]))
        = map reasoning (recommendations (classical_recommend [(''sad'', 1/2), (''melancholic'', 1/2)]))"
      by simp
    then show False
      unfolding reorder_reasoning by simp
  qed
  with equal reorder_reasoning show ?thesis
    by blast
qed

text \<open>
  Claim C9, amended. For two emotion distributions that are equal as dicts (categories of
  the vocabulary, no negative probability), the two calls return the same dance styles
  in the same order with the same scores and confidences, and the same diversity
  (deterministic engine) or superposition entropy and entanglement strength (amplitude
  engine); for the amplitude engine whatever phases the two calls draw, and so for two
  successive calls on the global generator. A call draws one phase for each emotion of
  the distribution that has a basis vector. The complete results, with the reasoning
  texts and the coherence, are identical when the two distributions also list their
  entries in the same order and the phases drawn in the two calls are identical.
\<close>

theorem recommend_two_calls:
  assumes "dict_eq emotions emotions'"
    and "list_all (\<lambda>(e, p). 0 \<le> p) emotions"
    and "set (keys emotions) \<subseteq> set (FACIAL_EMOTIONS @ MOVEMENT_EMOTIONS)"
  shows "map (\<lambda>r. (dance_style r, score r, confidence r))
           (recommendations (classical_recommend emotions'))
         = map (\<lambda>r. (dance_style r, score r, confidence r))
             (recommendations (classical_recommend emotions))
       \<and> diversity_score (classical_recommend emotions')
           = diversity_score (classical_recommend emotions)
       \<and> map (\<lambda>r. (dance_style r, score r, confidence r, quantum_amplitude r))
             (recommendations (quantum_recommend fmt emotions' rng'))
           = map (\<lambda>r. (dance_style r, score r, confidence r, quantum_amplitude r))
               (recommendations (quantum_recommend fmt emotions rng))
       \<and> superposition_entropy (quantum_properties (quantum_recommend fmt emotions' rng'))
           = superposition_entropy (quantum_properties (quantum_recommend fmt emotions rng))
       \<and> entanglement_strength (quantum_properties (quantum_recommend fmt emotions' rng'))
           = entanglement_strength (quantum_properties (quantum_recommend fmt emotions rng))
       \<and> map (\<lambda>r. (dance_style r, score r, confidence r, quantum_amplitude r))
             (recommendations (fst (quantum_recommend_call fmt emotions'
                                      (snd (quantum_recommend_call fmt emotions rng)))))
           = map (\<lambda>r. (dance_style r, score r, confidence r, quantum_amplitude r))
               (recommendations (fst (quantum_recommend_call fmt emotions rng)))
       \<and> snd (superposition_raw emotions rng)
           = length (filter (\<lambda>(e, p). has_key emotion_basis e) emotions)
       \<and> (emotions' = emotions
            \<and> (\<forall>k < length (filter (\<lambda>(e, p). has_key emotion_basis e) emotions). rng' k = rng k)
            \<longrightarrow> classical_recommend emotions' = classical_recommend emotions
                \<and> quantum_recommend fmt emotions' rng' = quantum_recommend fmt emotions rng)"
proof -
  have draws: "snd (superposition_raw emotions rng)
           = length (filter (\<lambda>(e, p). has_key emotion_basis e) emotions)"
    by (simp add: superposition_raw_def superposition_fold_draws)
  have whole: "quantum_recommend fmt emotions rng' = quantum_recommend fmt emotions rng"
    if "\<forall>k < length (filter (\<lambda>(e, p). has_key emotion_basis e) emotions). rng' k = rng k"
  proof -
    have "superposition_raw emotions rng' = superposition_raw emotions rng"
      unfolding superposition_raw_def using that
      by (intro superposition_fold_same_draws) simp
    then have "create_superposition_state emotions rng' = create_superposition_state emotions rng"
      by (simp add: create_superposition_state_def)
    then show ?thesis
      by (simp add: quantum_recommend_def)
  qed
  have successive: "map (\<lambda>r. (dance_style r, score r, confidence r, quantum_amplitude r))
             (recommendations (fst (quantum_recommend_call fmt emotions'
                                      (snd (quantum_recommend_call fmt emotions rng)))))
           = map (\<lambda>r. (dance_style r, score r, confidence r, quantum_amplitude r))
               (recommendations (fst (quantum_recommend_call fmt emotions rng)))"
    using quantum_dict_eq(1) [OF assms, of fmt _ rng]
    by (simp add: quantum_recommend_call_def)
  from classical_dict_eq [OF assms(1)] quantum_dict_eq [OF assms, of fmt rng' rng]
    successive draws whole
  show ?thesis
    by blast
qed

theorem recommend_two_calls_witness:
  "dict_eq [(''sad'', 1/2), (''melancholic'', 1/2)] [(''melancholic'', 1/2), (''sad'', 1/2)]
   \<and> [(''melancholic'', 1/2), (''sad'', 1/2)] \<noteq> [(''sad'', 1/2), (''melancholic'', 1/2::real)]
   \<and> list_all (\<lambda>(e, p). 0 \<le> p) [(''sad'', 1/2), (''melancholic'', 1/2::real)]
   \<and> map (\<lambda>r. (dance_style r, score r, confidence r))
         (recommendations (classical_recommend [(''melancholic'', 1/2), (''sad'', 1/2)]))
       = map (\<lambda>r. (dance_style r, score r, confidence r))
           (recommendations (classical_recommend [(''sad'', 1/2), (''melancholic'', 1/2)]))
   \<and> map (\<lambda>r. (dance_style r, score r, confidence r, quantum_amplitude r))
         (recommendations (quantum_recommend (\<lambda>p. []) [(''melancholic'', 1/2), (''sad'', 1/2)]
                             (\<lambda>draw. 1)))
       = map (\<lambda>r. (dance_style r, score r, confidence r, quantum_amplitude r))
           (recommendations (quantum_recommend (\<lambda>p. []) [(''sad'', 1/2), (''melancholic'', 1/2)]
                               (\<lambda>draw. 0)))
   \<and> length (filter (\<lambda>(e, p). has_key emotion_basis e) [(''sad'', 1/2), (''melancholic'', 1/2::real)]) = 2
   \<and> quantum_recommend (\<lambda>p. []) [(''sad'', 1/2), (''melancholic'', 1/2)]
         (\<lambda>draw. if draw < 2 then 0 else 1)
       = quantum_recommend (\<lambda>p. []) [(''sad'', 1/2), (''melancholic'', 1/2)] (\<lambda>draw. 0)"
proof -
  let ?a = "[(''sad'', 1/2), (''melancholic'', 1/2::real)]"
  let ?b = "[(''melancholic'', 1/2), (''sad'', 1/2::real)]"
  have reordered: "dict_eq ?a ?b" and same: "dict_eq ?a ?a"
    by (auto simp: dict_eq_def keys_def)
  have different: "?b \<noteq> ?a"
    by simp
  have nonneg: "list_all (\<lambda>(e, p). 0 \<le> p) ?a"
    by simp
  have vocabulary: "set (keys ?a) \<subseteq> set (FACIAL_EMOTIONS @ MOVEMENT_EMOTIONS)"
    by (simp add: keys_def FACIAL_EMOTIONS_def MOVEMENT_EMOTIONS_def)
  have draws: "length (filter (\<lambda>(e, p). has_key emotion_basis e) ?a) = 2"
    by (simp add: has_key_def emotion_basis_def keys_create_basis FACIAL_EMOTIONS_def
        MOVEMENT_EMOTIONS_def)
  then have agree: "\<forall>k < length (filter (\<lambda>(e, p). has_key emotion_basis e) ?a).
                      (if k < 2 then 0 else 1) = (0::real)"
    by simp
  from recommend_two_calls [OF reordered nonneg vocabulary, of "\<lambda>p. []" "\<lambda>draw. 1" "\<lambda>draw. 0"]
    recommend_two_calls [OF same nonneg vocabulary, of "\<lambda>p. []" "\<lambda>draw. if draw < 2 then 0 else 1"
      "\<lambda>draw. 0"]
    reordered different nonneg draws agree
  show ?thesis
    by blast
qed

end
